theory Spec2Isabelle
  imports Main
begin

section \<open>JavaScript values, errors and effects\<close>

text \<open>
  Every \<^verbatim>\<open>throw\<close> and every rejected promise of the source is a value: a function that
  may throw returns a \<open>completion\<close>. An \<^verbatim>\<open>async\<close> function that throws rejects the
  promise it returns, which is the \<open>Throw\<close> its caller sees after \<^verbatim>\<open>await\<close>.
\<close>

datatype js_error =
    TypeError string
  | RangeError string
  | Error string
  | SystemError string
  | MulterError string

datatype 'a completion = Normal 'a | Throw js_error

text \<open>
  Values that come out of \<^verbatim>\<open>JSON.parse\<close>. Only the truthiness and the string form of a
  number are observed by the code, so numbers are kept as integers. \<open>None\<close> of type
  \<open>json option\<close> stands for \<^verbatim>\<open>undefined\<close>.
\<close>

datatype json =
    JNull
  | JBool bool
  | JNum int
  | JStr string
  | JArr "json list"
  | JObj "(string \<times> json) list"

fun js_truthy :: "json option \<Rightarrow> bool" where
  "js_truthy None = False"
| "js_truthy (Some JNull) = False"
| "js_truthy (Some (JBool b)) = b"
| "js_truthy (Some (JNum n)) = (n \<noteq> 0)"
| "js_truthy (Some (JStr s)) = (s \<noteq> [])"
| "js_truthy (Some (JArr xs)) = True"
| "js_truthy (Some (JObj kvs)) = True"

text \<open>
  \<^verbatim>\<open>v.k\<close> for one of the keys the code reads (\<^verbatim>\<open>url\<close>, \<^verbatim>\<open>error\<close>, \<^verbatim>\<open>message\<close>,
  \<^verbatim>\<open>success\<close>, \<^verbatim>\<open>synced\<close>, \<^verbatim>\<open>data\<close>, \<^verbatim>\<open>configured\<close>): none of them is a built-in
  property of a string, number, boolean or array, so only an object can hold it; reading
  it from \<^verbatim>\<open>undefined\<close> or \<^verbatim>\<open>null\<close> throws a TypeError.
\<close>

fun js_get :: "json option \<Rightarrow> string \<Rightarrow> json option completion" where
  "js_get None k = Throw (TypeError (''Cannot read properties of undefined (reading '' @ k @ '')''))"
| "js_get (Some JNull) k = Throw (TypeError (''Cannot read properties of null (reading '' @ k @ '')''))"
| "js_get (Some (JObj kvs)) k = Normal (map_of kvs k)"
| "js_get (Some v) k = Normal None"

text \<open>\<^verbatim>\<open>v?.k\<close>: \<^verbatim>\<open>undefined\<close> and \<^verbatim>\<open>null\<close> short-circuit to \<^verbatim>\<open>undefined\<close>.\<close>

fun js_get_opt :: "json option \<Rightarrow> string \<Rightarrow> json option" where
  "js_get_opt (Some (JObj kvs)) k = map_of kvs k"
| "js_get_opt v k = None"

fun digit_char :: "nat \<Rightarrow> char" where
  "digit_char n = char_of (48 + n)"

fun show_nat :: "nat \<Rightarrow> string" where
  "show_nat n = (if n < 10 then [digit_char n] else show_nat (n div 10) @ [digit_char (n mod 10)])"

declare show_nat.simps [simp del]

definition show_int :: "int \<Rightarrow> string" where
  "show_int i = (if i < 0 then CHR ''-'' # show_nat (nat (- i)) else show_nat (nat i))"

fun join_with :: "string \<Rightarrow> string list \<Rightarrow> string" where
  "join_with sep [] = []"
| "join_with sep [x] = x"
| "join_with sep (x # y # ys) = x @ sep @ join_with sep (y # ys)"

text \<open>The string a value turns into inside a template literal (\<^verbatim>\<open>ToString\<close>).\<close>

fun js_toString :: "json \<Rightarrow> string" where
  "js_toString JNull = ''null''"
| "js_toString (JBool b) = (if b then ''true'' else ''false'')"
| "js_toString (JNum n) = show_int n"
| "js_toString (JStr s) = s"
| "js_toString (JArr xs) =
     join_with '','' (map (\<lambda>x. if x = JNull then [] else js_toString x) xs)"
| "js_toString (JObj kvs) = ''[object Object]''"

text \<open>\<^verbatim>\<open>s.startsWith(p)\<close>\<close>

definition startsWith :: "string \<Rightarrow> string \<Rightarrow> bool" where
  "startsWith s p = (take (length p) s = p)"

text \<open>
  The emoji of the log messages, as their UTF-8 bytes: U+2705, U+26A0 U+FE0F, U+1F4A1
  and U+274C.
\<close>

definition emoji_check :: string where
  "emoji_check = [char_of (0xE2::nat), char_of (0x9C::nat), char_of (0x85::nat)]"

definition emoji_warning :: string where
  "emoji_warning = [char_of (0xE2::nat), char_of (0x9A::nat), char_of (0xA0::nat),
                    char_of (0xEF::nat), char_of (0xB8::nat), char_of (0x8F::nat)]"

definition emoji_bulb :: string where
  "emoji_bulb = [char_of (0xF0::nat), char_of (0x9F::nat), char_of (0x92::nat), char_of (0xA1::nat)]"

definition emoji_cross :: string where
  "emoji_cross = [char_of (0xE2::nat), char_of (0x9D::nat), char_of (0x8C::nat)]"

subsection \<open>Console and network\<close>

datatype log_entry =
    ConsoleLog string
  | ConsoleWarn string
  | ConsoleError string js_error

text \<open>
  The body of a request is kept as the value handed to \<^verbatim>\<open>JSON.stringify\<close>: the rows of
  the direct client, or the submission itself in the proxy client.
\<close>

datatype 'd payload = NoBody | ValuesBody "string list list" | DataBody 'd

record 'd http_request =
  req_url :: string
  req_method :: string
  req_headers :: "(string \<times> string) list"
  req_body :: "'d payload"

text \<open>
  A response: its status and what \<^verbatim>\<open>response.json()\<close> resolves to (\<open>Throw\<close> when the body
  is not JSON). \<^verbatim>\<open>response.ok\<close> is true for the statuses 200 to 299.
\<close>

record http_response =
  status :: nat
  json_body :: "json completion"

definition response_ok :: "http_response \<Rightarrow> bool" where
  "response_ok r = (200 \<le> status r \<and> status r \<le> 299)"

text \<open>
  The remote end: what \<^verbatim>\<open>await fetch(request)\<close> gives, \<open>Throw\<close> for a network failure.
\<close>

type_synonym 'd network = "'d http_request \<Rightarrow> http_response completion"

record 'd world =
  console :: "log_entry list"
  requests :: "'d http_request list"

definition console_log :: "string \<Rightarrow> 'd world \<Rightarrow> 'd world" where
  "console_log msg w = w\<lparr>console := console w @ [ConsoleLog msg]\<rparr>"

definition console_warn :: "string \<Rightarrow> 'd world \<Rightarrow> 'd world" where
  "console_warn msg w = w\<lparr>console := console w @ [ConsoleWarn msg]\<rparr>"

definition console_error :: "string \<Rightarrow> js_error \<Rightarrow> 'd world \<Rightarrow> 'd world" where
  "console_error msg e w = w\<lparr>console := console w @ [ConsoleError msg e]\<rparr>"

definition fetch :: "'d network \<Rightarrow> 'd http_request \<Rightarrow> 'd world \<Rightarrow> http_response completion \<times> 'd world" where
  "fetch net rq w = (net rq, w\<lparr>requests := requests w @ [rq]\<rparr>)"

section \<open>The direct client (client/services/googleSheets.ts)\<close>

record sheetNames_t =
  contacts :: string
  jobApplications :: string
  getStartedRequests :: string
  resumeUploads :: string
  newsletter :: string

record GoogleSheetsConfig =
  spreadsheetId :: string
  apiKey :: string
  sheetNames :: sheetNames_t

text \<open>\<^verbatim>\<open>v || ""\<close> for a string that may be \<^verbatim>\<open>undefined\<close>: the empty string is falsy too.\<close>

definition or_empty :: "string option \<Rightarrow> string" where
  "or_empty v = (case v of None \<Rightarrow> [] | Some s \<Rightarrow> if s = [] then [] else s)"

text \<open>
  The module's \<^verbatim>\<open>config\<close> object, from the two environment variables (\<open>None\<close> when a
  variable is not set).
\<close>

definition config :: "string option \<Rightarrow> string option \<Rightarrow> GoogleSheetsConfig" where
  "config VITE_GOOGLE_SHEETS_ID VITE_GOOGLE_SHEETS_API_KEY =
     \<lparr> spreadsheetId = or_empty VITE_GOOGLE_SHEETS_ID,
       apiKey = or_empty VITE_GOOGLE_SHEETS_API_KEY,
       sheetNames = \<lparr> contacts = ''Contacts'',
                      jobApplications = ''Job Applications'',
                      getStartedRequests = ''Get Started Requests'',
                      resumeUploads = ''Resume Uploads'',
                      newsletter = ''Newsletter Subscribers'' \<rparr> \<rparr>"

definition baseUrl :: string where
  "baseUrl = ''https://sheets.googleapis.com/v4/spreadsheets''"

text \<open>\<^verbatim>\<open>!!(config.spreadsheetId && config.apiKey)\<close>: a string is truthy when not empty.\<close>

definition isConfigured :: "GoogleSheetsConfig \<Rightarrow> bool" where
  "isConfigured cfg = (spreadsheetId cfg \<noteq> [] \<and> apiKey cfg \<noteq> [])"

text \<open>
  \<^verbatim>\<open>errorData?.error?.message || "Unknown error"\<close>, as the template literal prints it;
  \<^verbatim>\<open>errorData\<close> is \<^verbatim>\<open>null\<close> when the body of the response is not JSON.
\<close>

definition error_message :: "json completion \<Rightarrow> string" where
  "error_message body =
     (let errorData = (case body of Normal j \<Rightarrow> j | Throw e \<Rightarrow> JNull);
          m = js_get_opt (js_get_opt (Some errorData) ''error'') ''message''
      in if js_truthy m then js_toString (the m) else ''Unknown error'')"

text \<open>The request of \<^verbatim>\<open>appendToSheet\<close>: the URL with its query, and the options.\<close>

definition append_request :: "GoogleSheetsConfig \<Rightarrow> string \<Rightarrow> string list list \<Rightarrow> 'd http_request" where
  "append_request cfg sheetName values =
     (let url = baseUrl @ ''/'' @ spreadsheetId cfg @ ''/values/'' @ sheetName @ '':append''
      in \<lparr> req_url = url @ ''?valueInputOption=RAW&key='' @ apiKey cfg,
           req_method = ''POST'',
           req_headers = [(''Content-Type'', ''application/json'')],
           req_body = ValuesBody values \<rparr>)"

definition msg_read_only :: string where
  "msg_read_only = emoji_warning @ '' Google Sheets API Key cannot write data. Read-only access available.''"

definition msg_write_access :: string where
  "msg_write_access = emoji_bulb @ '' For write access, configure OAuth2 or service account authentication.''"

definition api_error :: "http_response \<Rightarrow> js_error" where
  "api_error response =
     Error (''Google Sheets API error: '' @ show_nat (status response) @ '' - ''
            @ error_message (json_body response))"

text \<open>The \<^verbatim>\<open>try\<close> block of \<^verbatim>\<open>appendToSheet\<close>.\<close>

definition appendToSheet_try ::
  "GoogleSheetsConfig \<Rightarrow> 'd network \<Rightarrow> string \<Rightarrow> string list list \<Rightarrow> 'd world \<Rightarrow> bool completion \<times> 'd world" where
  "appendToSheet_try cfg net sheetName values w =
     (let (r, w1) = fetch net (append_request cfg sheetName values) w
      in case r of
           Throw e \<Rightarrow> (Throw e, w1)
         | Normal response \<Rightarrow>
             if \<not> response_ok response then
               if status response = 401 then
                 (Normal False, console_warn msg_write_access (console_warn msg_read_only w1))
               else
                 (Throw (api_error response), w1)
             else
               (Normal True, console_log (emoji_check @ '' Successfully synced to Google Sheets: '' @ sheetName) w1))"

definition appendToSheet ::
  "GoogleSheetsConfig \<Rightarrow> 'd network \<Rightarrow> string \<Rightarrow> string list list \<Rightarrow> 'd world \<Rightarrow> bool completion \<times> 'd world" where
  "appendToSheet cfg net sheetName values w =
     (if \<not> isConfigured cfg then
        (Normal False, console_warn ''Google Sheets not configured. Skipping sync.'' w)
      else
        case appendToSheet_try cfg net sheetName values w of
          (Throw error, w1) \<Rightarrow>
            (Normal False, console_error (emoji_cross @ '' Error syncing to Google Sheets:'') error w1)
        | (Normal b, w1) \<Rightarrow> (Normal b, w1))"

subsection \<open>Dates\<close>

text \<open>
  \<^verbatim>\<open>new Date(s).toISOString()\<close>. A \<^verbatim>\<open>Date\<close> holds a time value, the milliseconds since
  1970-01-01T00:00:00Z, or NaN (\<open>None\<close>). ECMAScript fixes what \<^verbatim>\<open>Date.parse\<close> gives for
  its own date-time format; the model reads the UTC instants of that format
  (\<^verbatim>\<open>YYYY-MM-DDTHH:mm:ssZ\<close> and \<^verbatim>\<open>YYYY-MM-DDTHH:mm:ss.sssZ\<close>, every field in range) and
  leaves every other string to the host's parser, a parameter.
\<close>

definition digit_val :: "char \<Rightarrow> nat option" where
  "digit_val c = (if 48 \<le> (of_char c :: nat) \<and> (of_char c :: nat) \<le> 57
                  then Some (of_char c - 48) else None)"

fun digits_val :: "nat \<Rightarrow> string \<Rightarrow> nat option" where
  "digits_val acc [] = Some acc"
| "digits_val acc (c # cs) =
     (case digit_val c of None \<Rightarrow> None | Some d \<Rightarrow> digits_val (10 * acc + d) cs)"

definition InLeapYear :: "int \<Rightarrow> bool" where
  "InLeapYear y = (y mod 4 = 0 \<and> (y mod 100 \<noteq> 0 \<or> y mod 400 = 0))"

definition DaysInMonth :: "int \<Rightarrow> nat \<Rightarrow> nat" where
  "DaysInMonth y m =
     (if m = 2 then (if InLeapYear y then 29 else 28)
      else if m = 4 \<or> m = 6 \<or> m = 9 \<or> m = 11 then 30 else 31)"

text \<open>The day number (days since 1970-01-01) of a date of the proleptic Gregorian calendar.\<close>

definition days_from_civil :: "int \<Rightarrow> int \<Rightarrow> int \<Rightarrow> int" where
  "days_from_civil y m d =
     (let y1 = (if m \<le> 2 then y - 1 else y);
          era = y1 div 400;
          yoe = y1 - era * 400;
          doy = (153 * (if m > 2 then m - 3 else m + 9) + 2) div 5 + d - 1;
          doe = yoe * 365 + yoe div 4 - yoe div 100 + doy
      in era * 146097 + doe - 719468)"

text \<open>The date (year, month, day) of a day number.\<close>

definition civil_from_days :: "int \<Rightarrow> int \<times> int \<times> int" where
  "civil_from_days z0 =
     (let z = z0 + 719468;
          era = z div 146097;
          doe = z - era * 146097;
          yoe = (doe - doe div 1460 + doe div 36524 - doe div 146096) div 365;
          y = yoe + era * 400;
          doy = doe - (365 * yoe + yoe div 4 - yoe div 100);
          mp = (5 * doy + 2) div 153;
          d = doy - (153 * mp + 2) div 5 + 1;
          m = (if mp < 10 then mp + 3 else mp - 9)
      in (if m \<le> 2 then y + 1 else y, m, d))"

definition msPerDay :: int where
  "msPerDay = 86400000"

definition parse_fields :: "string \<Rightarrow> string \<Rightarrow> string \<Rightarrow> string \<Rightarrow> string \<Rightarrow> string \<Rightarrow> string \<Rightarrow> int option" where
  "parse_fields YYYY MM DD HH mm ss sss =
     (case (digits_val 0 YYYY, digits_val 0 MM, digits_val 0 DD, digits_val 0 HH,
            digits_val 0 mm, digits_val 0 ss, digits_val 0 sss) of
        (Some y, Some mo, Some d, Some h, Some mi, Some s, Some ms) \<Rightarrow>
          if 1 \<le> mo \<and> mo \<le> 12 \<and> 1 \<le> d \<and> d \<le> DaysInMonth (int y) mo
             \<and> h \<le> 23 \<and> mi \<le> 59 \<and> s \<le> 59
          then Some (days_from_civil (int y) (int mo) (int d) * msPerDay
                     + int h * 3600000 + int mi * 60000 + int s * 1000 + int ms)
          else None
      | _ \<Rightarrow> None)"

definition parse_utc_instant :: "string \<Rightarrow> int option" where
  "parse_utc_instant s =
     (if (length s = 20 \<or> length s = 24)
         \<and> s ! 4 = CHR ''-'' \<and> s ! 7 = CHR ''-'' \<and> s ! 10 = CHR ''T''
         \<and> s ! 13 = CHR '':'' \<and> s ! 16 = CHR '':''
      then
        if length s = 20 then
          (if s ! 19 = CHR ''Z''
           then parse_fields (take 4 s) (take 2 (drop 5 s)) (take 2 (drop 8 s)) (take 2 (drop 11 s))
                  (take 2 (drop 14 s)) (take 2 (drop 17 s)) []
           else None)
        else
          (if s ! 19 = CHR ''.'' \<and> s ! 23 = CHR ''Z''
           then parse_fields (take 4 s) (take 2 (drop 5 s)) (take 2 (drop 8 s)) (take 2 (drop 11 s))
                  (take 2 (drop 14 s)) (take 2 (drop 17 s)) (take 3 (drop 20 s))
           else None)
      else None)"

text \<open>\<^verbatim>\<open>TimeClip\<close>: a time value beyond 8.64e15 milliseconds is NaN.\<close>

definition TimeClip :: "int option \<Rightarrow> int option" where
  "TimeClip t = (case t of None \<Rightarrow> None
                 | Some tv \<Rightarrow> if \<bar>tv\<bar> \<le> 8640000000000000 then Some tv else None)"

text \<open>\<^verbatim>\<open>new Date(s)\<close>, with the host's parser for the other formats.\<close>

definition Date_new :: "(string \<Rightarrow> int option) \<Rightarrow> string \<Rightarrow> int option" where
  "Date_new host s =
     TimeClip (case parse_utc_instant s of Some tv \<Rightarrow> Some tv | None \<Rightarrow> host s)"

definition pad_left :: "nat \<Rightarrow> string \<Rightarrow> string" where
  "pad_left n s = replicate (n - length s) (CHR ''0'') @ s"

definition iso_year :: "int \<Rightarrow> string" where
  "iso_year y =
     (if 0 \<le> y \<and> y \<le> 9999 then pad_left 4 (show_nat (nat y))
      else (if y < 0 then ''-'' else ''+'') @ pad_left 6 (show_nat (nat \<bar>y\<bar>)))"

text \<open>\<^verbatim>\<open>toISOString()\<close> throws a RangeError for an invalid date.\<close>

definition toISOString :: "int option \<Rightarrow> string completion" where
  "toISOString t =
     (case t of
        None \<Rightarrow> Throw (RangeError ''Invalid time value'')
      | Some tv \<Rightarrow>
          (let (y, m, d) = civil_from_days (tv div msPerDay);
               r = tv mod msPerDay
           in Normal (iso_year y @ ''-'' @ pad_left 2 (show_nat (nat m)) @ ''-''
                      @ pad_left 2 (show_nat (nat d)) @ ''T''
                      @ pad_left 2 (show_nat (nat (r div 3600000))) @ '':''
                      @ pad_left 2 (show_nat (nat (r mod 3600000 div 60000))) @ '':''
                      @ pad_left 2 (show_nat (nat (r mod 60000 div 1000))) @ ''.''
                      @ pad_left 3 (show_nat (nat (r mod 1000))) @ ''Z'')))"

subsection \<open>The sync methods\<close>

record ContactData =
  c_name :: string
  c_email :: string
  c_phone :: "string option"
  c_company :: "string option"
  c_message :: string
  c_created_at :: string

record ApplicationData =
  a_full_name :: string
  a_email :: string
  a_phone :: string
  a_position :: string
  a_experience :: string
  a_cover_letter :: "string option"
  a_resume_url :: "string option"
  a_status :: string
  a_created_at :: string

record RequestData =
  g_first_name :: string
  g_last_name :: string
  g_email :: string
  g_company :: "string option"
  g_phone :: "string option"
  g_job_title :: "string option"
  g_message :: "string option"
  g_created_at :: string

record ResumeData =
  r_full_name :: string
  r_email :: string
  r_phone :: "string option"
  r_location :: "string option"
  r_position_interested :: "string option"
  r_experience_level :: "string option"
  r_skills :: "string option"
  r_cover_letter :: "string option"
  r_linkedin_url :: "string option"
  r_portfolio_url :: "string option"
  r_resume_url :: "string option"
  r_created_at :: string

record SubscriptionData =
  n_email :: string
  n_subscribed_at :: string

text \<open>
  The \<^verbatim>\<open>values\<close> of each method: one row. Building it throws when the timestamp is not
  a valid date, before anything is sent.
\<close>

definition contact_values :: "(string \<Rightarrow> int option) \<Rightarrow> ContactData \<Rightarrow> string list list completion" where
  "contact_values host contactData =
     (case toISOString (Date_new host (c_created_at contactData)) of
        Throw e \<Rightarrow> Throw e
      | Normal ts \<Rightarrow>
          Normal [[ts,
                   c_name contactData,
                   c_email contactData,
                   or_empty (c_phone contactData),
                   or_empty (c_company contactData),
                   c_message contactData]])"

definition application_values :: "(string \<Rightarrow> int option) \<Rightarrow> ApplicationData \<Rightarrow> string list list completion" where
  "application_values host applicationData =
     (case toISOString (Date_new host (a_created_at applicationData)) of
        Throw e \<Rightarrow> Throw e
      | Normal ts \<Rightarrow>
          Normal [[ts,
                   a_full_name applicationData,
                   a_email applicationData,
                   a_phone applicationData,
                   a_position applicationData,
                   a_experience applicationData,
                   or_empty (a_cover_letter applicationData),
                   or_empty (a_resume_url applicationData),
                   a_status applicationData]])"

definition request_values :: "(string \<Rightarrow> int option) \<Rightarrow> RequestData \<Rightarrow> string list list completion" where
  "request_values host requestData =
     (case toISOString (Date_new host (g_created_at requestData)) of
        Throw e \<Rightarrow> Throw e
      | Normal ts \<Rightarrow>
          Normal [[ts,
                   g_first_name requestData,
                   g_last_name requestData,
                   g_email requestData,
                   or_empty (g_company requestData),
                   or_empty (g_phone requestData),
                   or_empty (g_job_title requestData),
                   or_empty (g_message requestData)]])"

definition resume_values :: "(string \<Rightarrow> int option) \<Rightarrow> ResumeData \<Rightarrow> string list list completion" where
  "resume_values host resumeData =
     (case toISOString (Date_new host (r_created_at resumeData)) of
        Throw e \<Rightarrow> Throw e
      | Normal ts \<Rightarrow>
          Normal [[ts,
                   r_full_name resumeData,
                   r_email resumeData,
                   or_empty (r_phone resumeData),
                   or_empty (r_location resumeData),
                   or_empty (r_position_interested resumeData),
                   or_empty (r_experience_level resumeData),
                   or_empty (r_skills resumeData),
                   or_empty (r_cover_letter resumeData),
                   or_empty (r_linkedin_url resumeData),
                   or_empty (r_portfolio_url resumeData),
                   or_empty (r_resume_url resumeData)]])"

definition subscription_values :: "(string \<Rightarrow> int option) \<Rightarrow> SubscriptionData \<Rightarrow> string list list completion" where
  "subscription_values host subscriptionData =
     (case toISOString (Date_new host (n_subscribed_at subscriptionData)) of
        Throw e \<Rightarrow> Throw e
      | Normal ts \<Rightarrow> Normal [[ts, n_email subscriptionData]])"

definition syncContact ::
  "GoogleSheetsConfig \<Rightarrow> 'd network \<Rightarrow> (string \<Rightarrow> int option) \<Rightarrow> ContactData \<Rightarrow> 'd world \<Rightarrow> bool completion \<times> 'd world" where
  "syncContact cfg net host contactData w =
     (case contact_values host contactData of
        Throw e \<Rightarrow> (Throw e, w)
      | Normal values \<Rightarrow> appendToSheet cfg net (contacts (sheetNames cfg)) values w)"

definition syncJobApplication ::
  "GoogleSheetsConfig \<Rightarrow> 'd network \<Rightarrow> (string \<Rightarrow> int option) \<Rightarrow> ApplicationData \<Rightarrow> 'd world \<Rightarrow> bool completion \<times> 'd world" where
  "syncJobApplication cfg net host applicationData w =
     (case application_values host applicationData of
        Throw e \<Rightarrow> (Throw e, w)
      | Normal values \<Rightarrow> appendToSheet cfg net (jobApplications (sheetNames cfg)) values w)"

definition syncGetStartedRequest ::
  "GoogleSheetsConfig \<Rightarrow> 'd network \<Rightarrow> (string \<Rightarrow> int option) \<Rightarrow> RequestData \<Rightarrow> 'd world \<Rightarrow> bool completion \<times> 'd world" where
  "syncGetStartedRequest cfg net host requestData w =
     (case request_values host requestData of
        Throw e \<Rightarrow> (Throw e, w)
      | Normal values \<Rightarrow> appendToSheet cfg net (getStartedRequests (sheetNames cfg)) values w)"

definition syncResumeUpload ::
  "GoogleSheetsConfig \<Rightarrow> 'd network \<Rightarrow> (string \<Rightarrow> int option) \<Rightarrow> ResumeData \<Rightarrow> 'd world \<Rightarrow> bool completion \<times> 'd world" where
  "syncResumeUpload cfg net host resumeData w =
     (case resume_values host resumeData of
        Throw e \<Rightarrow> (Throw e, w)
      | Normal values \<Rightarrow> appendToSheet cfg net (resumeUploads (sheetNames cfg)) values w)"

definition syncNewsletterSubscription ::
  "GoogleSheetsConfig \<Rightarrow> 'd network \<Rightarrow> (string \<Rightarrow> int option) \<Rightarrow> SubscriptionData \<Rightarrow> 'd world \<Rightarrow> bool completion \<times> 'd world" where
  "syncNewsletterSubscription cfg net host subscriptionData w =
     (case subscription_values host subscriptionData of
        Throw e \<Rightarrow> (Throw e, w)
      | Normal values \<Rightarrow> appendToSheet cfg net (newsletter (sheetNames cfg)) values w)"

text \<open>\<^verbatim>\<open>initializeSheets\<close> of the direct client.\<close>

definition initializeSheets :: "GoogleSheetsConfig \<Rightarrow> 'd world \<Rightarrow> 'd world" where
  "initializeSheets cfg w =
     (if \<not> isConfigured cfg then
        console_warn ''Google Sheets not configured. Skipping initialization.'' w
      else
        console_log ''Google Sheets service initialized'' w)"

section \<open>Promises and the background combinator\<close>

text \<open>
  A promise is the rest of a computation, run by the event loop once the operation it
  waits for has settled: from the world at that moment it gives the settled value (\<open>Throw\<close>
  for a rejection) and the world after its effects. Like every object, a promise is truthy.
\<close>

datatype ('a, 'd) promise = Promise "'d world \<Rightarrow> 'a completion \<times> 'd world"

fun await :: "('a, 'd) promise \<Rightarrow> 'd world \<Rightarrow> 'a completion \<times> 'd world" where
  "await (Promise k) w = k w"

fun object_truthy :: "('a, 'd) promise \<Rightarrow> bool" where
  "object_truthy (Promise k) = True"

text \<open>
  \<^verbatim>\<open>p.catch(handler)\<close>: a promise that runs the handler on a rejection of \<open>p\<close> and is
  fulfilled either way (with \<open>None\<close>, the handler's \<^verbatim>\<open>undefined\<close>, after a rejection).
\<close>

fun promise_catch ::
  "('a, 'd) promise \<Rightarrow> (js_error \<Rightarrow> 'd world \<Rightarrow> 'd world) \<Rightarrow> ('a option, 'd) promise" where
  "promise_catch (Promise k) handler =
     Promise (\<lambda>w. case k w of
                     (Throw error, w1) \<Rightarrow> (Normal None, handler error w1)
                   | (Normal v, w1) \<Rightarrow> (Normal (Some v), w1))"

text \<open>
  Calling an \<^verbatim>\<open>async\<close> function never throws: whatever its body does ends up in the
  promise it returns.
\<close>

definition async_call ::
  "('d world \<Rightarrow> 'a completion \<times> 'd world) \<Rightarrow> 'd world \<Rightarrow> ('a, 'd) promise completion \<times> 'd world" where
  "async_call body w = (Normal (Promise body), w)"

text \<open>
  \<^verbatim>\<open>withGoogleSheetsSync\<close>. \<open>supabaseOperation\<close> is the awaited call of the primary
  operation. \<open>syncOperation\<close> is the call \<^verbatim>\<open>syncOperation()\<close> itself: it throws, or it
  returns a promise, to which the \<^verbatim>\<open>catch\<close> handler is attached and which nobody
  awaits. The third component of the result holds the promises left to the event loop.
\<close>

definition withGoogleSheetsSync ::
  "('d world \<Rightarrow> 'a completion \<times> 'd world) \<Rightarrow>
   ('d world \<Rightarrow> (bool, 'd) promise completion \<times> 'd world) \<Rightarrow>
   'd world \<Rightarrow> 'a completion \<times> 'd world \<times> (bool option, 'd) promise list" where
  "withGoogleSheetsSync supabaseOperation syncOperation w =
     (case supabaseOperation w of
        (Throw e, w1) \<Rightarrow> (Throw e, w1, [])
      | (Normal result, w1) \<Rightarrow>
          (case syncOperation w1 of
             (Throw e, w2) \<Rightarrow> (Throw e, w2, [])
           | (Normal p, w2) \<Rightarrow>
               (Normal result, w2,
                [promise_catch p (console_error ''Background Google Sheets sync failed:'')])))"

section \<open>The proxy client\<close>

definition proxy_baseUrl :: string where
  "proxy_baseUrl = ''/api/sync''"

text \<open>The \<^verbatim>\<open>try\<close> block of the proxy client's \<^verbatim>\<open>isConfigured\<close>, from the settled fetch.\<close>

definition proxy_isConfigured_try :: "http_response completion \<Rightarrow> json option completion" where
  "proxy_isConfigured_try r =
     (case r of
        Throw e \<Rightarrow> Throw e
      | Normal response \<Rightarrow>
          if response_ok response then
            (case json_body response of
               Throw e \<Rightarrow> Throw e
             | Normal result \<Rightarrow>
                 (case js_get (Some result) ''success'' of
                    Throw e \<Rightarrow> Throw e
                  | Normal success \<Rightarrow>
                      if \<not> js_truthy success then Normal success
                      else (case js_get (Some result) ''data'' of
                              Throw e \<Rightarrow> Throw e
                            | Normal data \<Rightarrow> js_get data ''configured'')))
          else Normal (Some (JBool False)))"

text \<open>
  \<^verbatim>\<open>isConfigured\<close> of the proxy client is \<^verbatim>\<open>async\<close>: the call sends the status request and
  returns a promise.
\<close>

definition proxy_isConfigured :: "'d network \<Rightarrow> 'd world \<Rightarrow> (json option, 'd) promise \<times> 'd world" where
  "proxy_isConfigured net w =
     (let (r, w1) = fetch net \<lparr> req_url = proxy_baseUrl @ ''/status'', req_method = ''GET'',
                                req_headers = [], req_body = NoBody \<rparr> w
      in (Promise (\<lambda>w2. case proxy_isConfigured_try r of
                           Throw error \<Rightarrow>
                             (Normal (Some (JBool False)),
                              console_error ''Error checking Google Sheets configuration:'' error w2)
                         | Normal v \<Rightarrow> (Normal v, w2)),
          w1))"

text \<open>The \<^verbatim>\<open>try\<close> block of \<^verbatim>\<open>syncToServer\<close>.\<close>

definition syncToServer_try ::
  "'d network \<Rightarrow> string \<Rightarrow> 'd \<Rightarrow> 'd world \<Rightarrow> json option completion \<times> 'd world" where
  "syncToServer_try net endpoint data w =
     (let (r, w1) = fetch net \<lparr> req_url = proxy_baseUrl @ ''/'' @ endpoint, req_method = ''POST'',
                                req_headers = [(''Content-Type'', ''application/json'')],
                                req_body = DataBody data \<rparr> w
      in case r of
           Throw e \<Rightarrow> (Throw e, w1)
         | Normal response \<Rightarrow>
             if \<not> response_ok response then
               (Throw (Error (''Sync failed: '' @ show_nat (status response))), w1)
             else
               (case json_body response of
                  Throw e \<Rightarrow> (Throw e, w1)
                | Normal result \<Rightarrow>
                    (case js_get (Some result) ''success'' of
                       Throw e \<Rightarrow> (Throw e, w1)
                     | Normal success \<Rightarrow>
                         if js_truthy success then
                           (js_get (Some result) ''synced'',
                            console_log (emoji_check @ '' Successfully synced to Google Sheets: '' @ endpoint) w1)
                         else
                           (case js_get (Some result) ''error'' of
                              Throw e \<Rightarrow> (Throw e, w1)
                            | Normal err \<Rightarrow>
                                (Throw (Error (if js_truthy err then js_toString (the err) else ''Sync failed'')),
                                 w1)))))"

definition syncToServer ::
  "'d network \<Rightarrow> string \<Rightarrow> 'd \<Rightarrow> 'd world \<Rightarrow> json option completion \<times> 'd world" where
  "syncToServer net endpoint data w =
     (case syncToServer_try net endpoint data w of
        (Throw error, w1) \<Rightarrow>
          (Normal (Some (JBool False)),
           console_error (emoji_cross @ '' Error syncing to Google Sheets ('' @ endpoint @ ''):'') error w1)
      | (Normal v, w1) \<Rightarrow> (Normal v, w1))"

text \<open>
  The sync methods of the proxy client call \<^verbatim>\<open>this.appendToSheet\<close>. The class of the proxy
  client has the members \<^verbatim>\<open>baseUrl\<close>, \<^verbatim>\<open>isConfigured\<close>, \<^verbatim>\<open>syncToServer\<close>, the five sync
  methods and \<^verbatim>\<open>initializeSheets\<close>, and no \<^verbatim>\<open>appendToSheet\<close>: the property is
  \<^verbatim>\<open>undefined\<close>, and calling it throws a TypeError.
\<close>

definition proxy_appendToSheet :: "string \<Rightarrow> string list list \<Rightarrow> 'd world \<Rightarrow> bool completion \<times> 'd world" where
  "proxy_appendToSheet sheetName values w =
     (Throw (TypeError ''this.appendToSheet is not a function''), w)"

definition proxy_syncContact ::
  "GoogleSheetsConfig \<Rightarrow> (string \<Rightarrow> int option) \<Rightarrow> ContactData \<Rightarrow> 'd world \<Rightarrow> bool completion \<times> 'd world" where
  "proxy_syncContact cfg host contactData w =
     (case contact_values host contactData of
        Throw e \<Rightarrow> (Throw e, w)
      | Normal values \<Rightarrow> proxy_appendToSheet (contacts (sheetNames cfg)) values w)"

definition proxy_syncJobApplication ::
  "GoogleSheetsConfig \<Rightarrow> (string \<Rightarrow> int option) \<Rightarrow> ApplicationData \<Rightarrow> 'd world \<Rightarrow> bool completion \<times> 'd world" where
  "proxy_syncJobApplication cfg host applicationData w =
     (case application_values host applicationData of
        Throw e \<Rightarrow> (Throw e, w)
      | Normal values \<Rightarrow> proxy_appendToSheet (jobApplications (sheetNames cfg)) values w)"

definition proxy_syncGetStartedRequest ::
  "GoogleSheetsConfig \<Rightarrow> (string \<Rightarrow> int option) \<Rightarrow> RequestData \<Rightarrow> 'd world \<Rightarrow> bool completion \<times> 'd world" where
  "proxy_syncGetStartedRequest cfg host requestData w =
     (case request_values host requestData of
        Throw e \<Rightarrow> (Throw e, w)
      | Normal values \<Rightarrow> proxy_appendToSheet (getStartedRequests (sheetNames cfg)) values w)"

definition proxy_syncResumeUpload ::
  "GoogleSheetsConfig \<Rightarrow> (string \<Rightarrow> int option) \<Rightarrow> ResumeData \<Rightarrow> 'd world \<Rightarrow> bool completion \<times> 'd world" where
  "proxy_syncResumeUpload cfg host resumeData w =
     (case resume_values host resumeData of
        Throw e \<Rightarrow> (Throw e, w)
      | Normal values \<Rightarrow> proxy_appendToSheet (resumeUploads (sheetNames cfg)) values w)"

definition proxy_syncNewsletterSubscription ::
  "GoogleSheetsConfig \<Rightarrow> (string \<Rightarrow> int option) \<Rightarrow> SubscriptionData \<Rightarrow> 'd world \<Rightarrow> bool completion \<times> 'd world" where
  "proxy_syncNewsletterSubscription cfg host subscriptionData w =
     (case subscription_values host subscriptionData of
        Throw e \<Rightarrow> (Throw e, w)
      | Normal values \<Rightarrow> proxy_appendToSheet (newsletter (sheetNames cfg)) values w)"

text \<open>
  \<^verbatim>\<open>initializeSheets\<close> of the proxy client tests \<^verbatim>\<open>!this.isConfigured()\<close> without
  \<^verbatim>\<open>await\<close>: the operand is the promise. The promise is returned beside the world, for
  the event loop.
\<close>

definition proxy_initializeSheets :: "'d network \<Rightarrow> 'd world \<Rightarrow> 'd world \<times> (json option, 'd) promise" where
  "proxy_initializeSheets net w =
     (let (p, w1) = proxy_isConfigured net w
      in if \<not> object_truthy p then
           (console_warn ''Google Sheets not configured. Skipping initialization.'' w1, p)
         else
           (console_log ''Google Sheets service initialized'' w1, p))"

section \<open>The upload routes (server/routes/upload.ts)\<close>

subsection \<open>Paths and the file system\<close>

text \<open>
  POSIX \<^verbatim>\<open>path.basename\<close>: trailing slashes are dropped, then the last segment is taken.
\<close>

definition basename :: "string \<Rightarrow> string" where
  "basename p = rev (takeWhile (\<lambda>c. c \<noteq> CHR ''/'') (dropWhile (\<lambda>c. c = CHR ''/'') (rev p)))"

text \<open>
  POSIX \<^verbatim>\<open>path.extname\<close>: from the last dot of the base name, and empty when there is no
  dot, when that dot starts the base name, or when the base name is \<^verbatim>\<open>..\<close>.
\<close>

definition extname :: "string \<Rightarrow> string" where
  "extname p =
     (let b = basename p;
          after = rev (takeWhile (\<lambda>c. c \<noteq> CHR ''.'') (rev b))
      in if CHR ''.'' \<notin> set b \<or> length after + 1 = length b \<or> b = ''..'' then []
         else CHR ''.'' # after)"

text \<open>
  An absolute, normalised path is the list of its segments; \<^verbatim>\<open>process.cwd()\<close> is one.
  \<^verbatim>\<open>path.join(dir, s)\<close> normalises \<open>s\<close> on top of \<open>dir\<close>: empty segments and \<^verbatim>\<open>.\<close> are
  dropped, \<^verbatim>\<open>..\<close> goes up one directory (and stays at the root).
\<close>

type_synonym path = "string list"

fun split_slash :: "string \<Rightarrow> string list" where
  "split_slash [] = [[]]"
| "split_slash (c # cs) =
     (if c = CHR ''/'' then [] # split_slash cs
      else (case split_slash cs of [] \<Rightarrow> [[c]] | x # xs \<Rightarrow> (c # x) # xs))"

fun normalize_onto :: "path \<Rightarrow> string list \<Rightarrow> path" where
  "normalize_onto dir [] = dir"
| "normalize_onto dir (seg # segs) =
     (if seg = [] \<or> seg = ''.'' then normalize_onto dir segs
      else if seg = ''..'' then normalize_onto (butlast dir) segs
      else normalize_onto (dir @ [seg]) segs)"

definition path_join :: "path \<Rightarrow> string \<Rightarrow> path" where
  "path_join dir s = normalize_onto dir (split_slash s)"

definition uploadsDir :: "path \<Rightarrow> path" where
  "uploadsDir cwd = path_join cwd ''uploads''"

text \<open>
  The file system: what is at each path. \<open>ReadOnlyFile\<close> is a file the process may not
  remove.
\<close>

datatype fnode = File | ReadOnlyFile | Dir

datatype fs_call = ExistsSync path | UnlinkSync path

record server =
  files :: "path \<Rightarrow> fnode option"
  fs_calls :: "fs_call list"
  logged :: "log_entry list"

definition existsSync :: "path \<Rightarrow> server \<Rightarrow> bool \<times> server" where
  "existsSync p st = (files st p \<noteq> None, st\<lparr>fs_calls := fs_calls st @ [ExistsSync p]\<rparr>)"

text \<open>\<^verbatim>\<open>fs.unlinkSync\<close> removes a file and throws on a directory or a missing path.\<close>

definition unlinkSync :: "path \<Rightarrow> server \<Rightarrow> unit completion \<times> server" where
  "unlinkSync p st =
     (let st1 = st\<lparr>fs_calls := fs_calls st @ [UnlinkSync p]\<rparr>
      in case files st p of
           Some File \<Rightarrow> (Normal (), st1\<lparr>files := (files st)(p := None)\<rparr>)
         | Some ReadOnlyFile \<Rightarrow> (Throw (SystemError ''EACCES: permission denied, unlink''), st1)
         | Some Dir \<Rightarrow> (Throw (SystemError ''EISDIR: illegal operation on a directory, unlink''), st1)
         | None \<Rightarrow> (Throw (SystemError ''ENOENT: no such file or directory, unlink''), st1))"

definition server_log :: "log_entry \<Rightarrow> server \<Rightarrow> server" where
  "server_log e st = st\<lparr>logged := logged st @ [e]\<rparr>"

subsection \<open>Responses\<close>

text \<open>
  A response is its status and its body: the JSON of \<^verbatim>\<open>res.json\<close>, or the error page that
  Express writes for an error no handler took.
\<close>

datatype res_body = JsonBody json | ErrorPage js_error

record response =
  res_status :: nat
  res_body :: res_body

subsection \<open>deleteImage\<close>

definition delete_ok :: response where
  "delete_ok = \<lparr> res_status = 200,
                 res_body = JsonBody (JObj [(''success'', JBool True),
                                            (''message'', JStr ''Image deleted successfully'')]) \<rparr>"

definition delete_failed :: response where
  "delete_failed = \<lparr> res_status = 500,
                     res_body = JsonBody (JObj [(''success'', JBool False),
                                                (''error'', JStr ''Failed to delete image'')]) \<rparr>"

text \<open>The body of \<^verbatim>\<open>if (url && url.startsWith("/api/uploads/"))\<close>, for the string \<open>url\<close>.\<close>

definition remove_upload :: "path \<Rightarrow> string \<Rightarrow> server \<Rightarrow> unit completion \<times> server" where
  "remove_upload cwd url st =
     (let filename = basename url;
          filePath = path_join (uploadsDir cwd) filename;
          (ex, st1) = existsSync filePath st
      in if ex then
           (case unlinkSync filePath st1 of
              (Throw e, st2) \<Rightarrow> (Throw e, st2)
            | (Normal u, st2) \<Rightarrow> (Normal (), server_log (ConsoleLog (''Deleted image: '' @ filename)) st2))
         else (Normal (), st1))"

text \<open>
  The \<^verbatim>\<open>try\<close> block of \<^verbatim>\<open>deleteImage\<close>; \<open>body\<close> is \<^verbatim>\<open>req.body\<close>. A truthy \<open>url\<close> that is
  not a string has no \<^verbatim>\<open>startsWith\<close> method, and the call throws.
\<close>

definition deleteImage_try :: "path \<Rightarrow> json option \<Rightarrow> server \<Rightarrow> response completion \<times> server" where
  "deleteImage_try cwd body st =
     (case js_get body ''url'' of
        Throw e \<Rightarrow> (Throw e, st)
      | Normal url \<Rightarrow>
          (case (case url of
                   Some (JStr u) \<Rightarrow>
                     if u \<noteq> [] \<and> startsWith u ''/api/uploads/'' then remove_upload cwd u st
                     else (Normal (), st)
                 | _ \<Rightarrow>
                     if js_truthy url then (Throw (TypeError ''url.startsWith is not a function''), st)
                     else (Normal (), st)) of
             (Throw e, st1) \<Rightarrow> (Throw e, st1)
           | (Normal u, st1) \<Rightarrow> (Normal delete_ok, st1)))"

definition deleteImage :: "path \<Rightarrow> json option \<Rightarrow> server \<Rightarrow> response \<times> server" where
  "deleteImage cwd body st =
     (case deleteImage_try cwd body st of
        (Throw error, st1) \<Rightarrow> (delete_failed, server_log (ConsoleError ''Error deleting image:'' error) st1)
      | (Normal r, st1) \<Rightarrow> (r, st1))"

subsection \<open>uploadImage behind the multer middleware\<close>

record file_part =
  fieldname :: string
  originalname :: string
  mimetype :: string
  size :: nat

record multer_file = file_part +
  filename :: string

definition fileSize :: nat where
  "fileSize = 5 * 1024 * 1024"

text \<open>The \<^verbatim>\<open>fileFilter\<close> option: whether the file is accepted.\<close>

definition fileFilter :: "file_part option \<Rightarrow> server \<Rightarrow> bool \<times> server" where
  "fileFilter file st =
     (case file of
        Some f \<Rightarrow>
          if mimetype f \<noteq> [] \<and> startsWith (mimetype f) ''image/'' then (True, st)
          else (False,
                server_log (ConsoleWarn (emoji_cross @ '' Rejected file upload: ''
                   @ (if originalname f \<noteq> [] then originalname f else ''unknown'')
                   @ '' ('' @ (if mimetype f \<noteq> [] then mimetype f else ''no mimetype'') @ '')'')) st)
      | None \<Rightarrow>
          (False, server_log (ConsoleWarn (emoji_cross @ '' Rejected file upload: unknown (no mimetype)'')) st))"

text \<open>
  The \<^verbatim>\<open>filename\<close> option of the disk storage; \<open>now\<close> is \<^verbatim>\<open>Date.now()\<close> and \<open>rnd\<close> is
  \<^verbatim>\<open>Math.round(Math.random() * 1e9)\<close>.
\<close>

definition storage_filename :: "nat \<Rightarrow> nat \<Rightarrow> file_part \<Rightarrow> string" where
  "storage_filename now rnd file =
     (let uniqueSuffix = show_nat now @ ''-'' @ show_nat rnd;
          ext = extname (originalname file)
      in ''image-'' @ uniqueSuffix @ ext)"

text \<open>
  \<^verbatim>\<open>upload.single("image")\<close>, for a request with at most one file part. This is multer as
  its documentation has it, with the options of the source: a file under another field
  name is an error; a file the filter refuses is skipped, and the request goes on
  without \<^verbatim>\<open>req.file\<close>; an accepted file is written to \<^verbatim>\<open>path.join(destination, filename)\<close>;
  when it is larger than \<^verbatim>\<open>limits.fileSize\<close> what was written is removed and the error
  \<^verbatim>\<open>LIMIT_FILE_SIZE\<close> is passed to \<^verbatim>\<open>next\<close>.
\<close>

definition uploadMiddleware ::
  "path \<Rightarrow> nat \<Rightarrow> nat \<Rightarrow> file_part option \<Rightarrow> server \<Rightarrow> multer_file option completion \<times> server" where
  "uploadMiddleware cwd now rnd part st =
     (case part of
        None \<Rightarrow> (Normal None, st)
      | Some f \<Rightarrow>
          if fieldname f \<noteq> ''image'' then (Throw (MulterError ''LIMIT_UNEXPECTED_FILE''), st)
          else
            (let (accepted, st1) = fileFilter (Some f) st
             in if \<not> accepted then (Normal None, st1)
                else
                  (let name = storage_filename now rnd f;
                       dest = path_join (uploadsDir cwd) name
                   in if size f > fileSize then
                        (Throw (MulterError ''LIMIT_FILE_SIZE''), st1\<lparr>files := (files st1)(dest := None)\<rparr>)
                      else
                        (Normal (Some (file_part.extend f \<lparr>filename = name\<rparr>)),
                         st1\<lparr>files := (files st1)(dest \<mapsto> File)\<rparr>))))"

definition uploadImage :: "multer_file option \<Rightarrow> server \<Rightarrow> response \<times> server" where
  "uploadImage file st =
     (case file of
        None \<Rightarrow>
          (\<lparr> res_status = 400,
             res_body = JsonBody (JObj [(''success'', JBool False),
                (''error'', JStr ''No valid image file provided. Please upload a valid image file (PNG, JPG, GIF, etc.)'')]) \<rparr>,
           server_log (ConsoleWarn (emoji_cross @ '' Upload rejected: No valid image file provided'')) st)
      | Some f \<Rightarrow>
          if \<not> startsWith (mimetype f) ''image/'' then
            (\<lparr> res_status = 400,
               res_body = JsonBody (JObj [(''success'', JBool False),
                                          (''error'', JStr ''Only image files are allowed'')]) \<rparr>,
             server_log (ConsoleWarn (emoji_cross @ '' Upload rejected: Invalid file type '' @ mimetype f)) st)
          else
            (let imageUrl = ''/api/uploads/'' @ filename f
             in (\<lparr> res_status = 200,
                   res_body = JsonBody (JObj [(''success'', JBool True),
                      (''data'', JObj [(''url'', JStr imageUrl),
                                       (''filename'', JStr (originalname f)),
                                       (''size'', JNum (int (size f))),
                                       (''mimetype'', JStr (mimetype f))])]) \<rparr>,
                 server_log (ConsoleLog (emoji_check @ '' Image upload successful: '' @ originalname f
                                         @ '' -> '' @ filename f)) st)))"

text \<open>
  The route \<^verbatim>\<open>app.post("/api/upload/image", uploadMiddleware, uploadImage)\<close>. The
  application registers no error-handling middleware, so an error passed to \<^verbatim>\<open>next\<close>
  reaches the default handler of Express: the status is the error's \<^verbatim>\<open>status\<close> when it
  has one, else 500, and the body is the error page.
\<close>

definition default_error_handler :: "js_error \<Rightarrow> response" where
  "default_error_handler err = \<lparr> res_status = 500, res_body = ErrorPage err \<rparr>"

definition post_upload_image :: "path \<Rightarrow> nat \<Rightarrow> nat \<Rightarrow> file_part option \<Rightarrow> server \<Rightarrow> response \<times> server" where
  "post_upload_image cwd now rnd part st =
     (case uploadMiddleware cwd now rnd part st of
        (Throw err, st1) \<Rightarrow> (default_error_handler err, st1)
      | (Normal file, st1) \<Rightarrow> uploadImage file st1)"

section \<open>Properties of the direct client\<close>

lemma appendToSheet_configured:
  "isConfigured cfg \<Longrightarrow>
   appendToSheet cfg net sheetName values w =
     (let w1 = w\<lparr>requests := requests w @ [append_request cfg sheetName values]\<rparr>
      in case net (append_request cfg sheetName values) of
           Throw e \<Rightarrow>
             (Normal False, console_error (emoji_cross @ '' Error syncing to Google Sheets:'') e w1)
         | Normal response \<Rightarrow>
             if response_ok response then
               (Normal True, console_log (emoji_check @ '' Successfully synced to Google Sheets: '' @ sheetName) w1)
             else if status response = 401 then
               (Normal False, console_warn msg_write_access (console_warn msg_read_only w1))
             else
               (Normal False,
                console_error (emoji_cross @ '' Error syncing to Google Sheets:'') (api_error response) w1))"
  by (simp add: appendToSheet_def appendToSheet_try_def fetch_def Let_def split: completion.splits)

lemma requests_console [simp]:
  "requests (console_log m w) = requests w"
  "requests (console_warn m w) = requests w"
  "requests (console_error m e w) = requests w"
  by (simp_all add: console_log_def console_warn_def console_error_def)

lemma console_console [simp]:
  "console (console_log m w) = console w @ [ConsoleLog m]"
  "console (console_warn m w) = console w @ [ConsoleWarn m]"
  "console (console_error m e w) = console w @ [ConsoleError m e]"
  by (simp_all add: console_log_def console_warn_def console_error_def)

text \<open>
  C5. The direct client is configured exactly when the spreadsheet identifier and the API
  key are both non-empty (for the module's configuration: both environment variables set
  and non-empty). When one of them is empty, \<open>appendToSheet\<close> returns false, sends no
  request and logs the warning that the sync is skipped.
\<close>

theorem appendToSheet_not_configured:
  "(isConfigured cfg \<longleftrightarrow> spreadsheetId cfg \<noteq> [] \<and> apiKey cfg \<noteq> []) \<and>
   (isConfigured (config env_id env_key) \<longleftrightarrow>
      (\<exists>i. env_id = Some i \<and> i \<noteq> []) \<and> (\<exists>k. env_key = Some k \<and> k \<noteq> [])) \<and>
   (spreadsheetId cfg = [] \<or> apiKey cfg = [] \<longrightarrow>
      fst (appendToSheet cfg net sheetName values w) = Normal False \<and>
      requests (snd (appendToSheet cfg net sheetName values w)) = requests w \<and>
      console (snd (appendToSheet cfg net sheetName values w)) =
        console w @ [ConsoleWarn ''Google Sheets not configured. Skipping sync.''])"
proof (intro conjI impI)
  show "isConfigured cfg \<longleftrightarrow> spreadsheetId cfg \<noteq> [] \<and> apiKey cfg \<noteq> []"
    by (simp add: isConfigured_def)
  show "isConfigured (config env_id env_key) \<longleftrightarrow>
      (\<exists>i. env_id = Some i \<and> i \<noteq> []) \<and> (\<exists>k. env_key = Some k \<and> k \<noteq> [])"
    by (cases env_id; cases env_key) (auto simp: isConfigured_def config_def or_empty_def)
next
  assume "spreadsheetId cfg = [] \<or> apiKey cfg = []"
  then have nc: "\<not> isConfigured cfg"
    by (auto simp: isConfigured_def)
  show "fst (appendToSheet cfg net sheetName values w) = Normal False"
    using nc by (simp add: appendToSheet_def)
  show "requests (snd (appendToSheet cfg net sheetName values w)) = requests w"
    using nc by (simp add: appendToSheet_def)
  show "console (snd (appendToSheet cfg net sheetName values w)) =
        console w @ [ConsoleWarn ''Google Sheets not configured. Skipping sync.'']"
    using nc by (simp add: appendToSheet_def)
qed

theorem appendToSheet_not_configured_witness:
  "apiKey (config (Some ''sheet-1'') None) = [] \<and>
   fst (appendToSheet (config (Some ''sheet-1'') None) (\<lambda>rq. Normal \<lparr>status = 200, json_body = Normal JNull\<rparr>)
          ''Contacts'' [[''a'']] \<lparr>console = [], requests = ([] :: unit http_request list)\<rparr>) = Normal False \<and>
   requests (snd (appendToSheet (config (Some ''sheet-1'') None) (\<lambda>rq. Normal \<lparr>status = 200, json_body = Normal JNull\<rparr>)
          ''Contacts'' [[''a'']] \<lparr>console = [], requests = ([] :: unit http_request list)\<rparr>)) = []"
proof -
  have k: "apiKey (config (Some ''sheet-1'') None) = []"
    by (simp add: config_def or_empty_def)
  from appendToSheet_not_configured
         [of "config (Some ''sheet-1'') None" "Some ''sheet-1''" None
             "\<lambda>rq. Normal \<lparr>status = 200, json_body = Normal JNull\<rparr>" "''Contacts''" "[[''a'']]"
             "\<lparr>console = [], requests = ([] :: unit http_request list)\<rparr>"] k
  show ?thesis by simp
qed

text \<open>
  C1. \<open>appendToSheet\<close> of the direct client always returns a boolean, whatever the remote
  end does. When a request is sent (the client is configured), the result is true exactly
  for a response with a success status; a 401 response gives false after the two
  warnings, any other failure status gives false after the error is logged, and a network
  exception gives false after it is logged.
\<close>

theorem appendToSheet_never_raises:
  "(\<exists>b. fst (appendToSheet cfg net sheetName values w) = Normal b) \<and>
   (isConfigured cfg \<longrightarrow>
      (\<forall>response. net (append_request cfg sheetName values) = Normal response \<longrightarrow>
         (response_ok response \<longrightarrow>
            fst (appendToSheet cfg net sheetName values w) = Normal True) \<and>
         (status response = 401 \<longrightarrow>
            fst (appendToSheet cfg net sheetName values w) = Normal False \<and>
            console (snd (appendToSheet cfg net sheetName values w)) =
              console w @ [ConsoleWarn msg_read_only, ConsoleWarn msg_write_access]) \<and>
         (\<not> response_ok response \<and> status response \<noteq> 401 \<longrightarrow>
            fst (appendToSheet cfg net sheetName values w) = Normal False \<and>
            console (snd (appendToSheet cfg net sheetName values w)) =
              console w @ [ConsoleError (emoji_cross @ '' Error syncing to Google Sheets:'') (api_error response)])) \<and>
      (\<forall>e. net (append_request cfg sheetName values) = Throw e \<longrightarrow>
         fst (appendToSheet cfg net sheetName values w) = Normal False \<and>
         console (snd (appendToSheet cfg net sheetName values w)) =
           console w @ [ConsoleError (emoji_cross @ '' Error syncing to Google Sheets:'') e]))"
proof (intro conjI impI allI)
  show "\<exists>b. fst (appendToSheet cfg net sheetName values w) = Normal b"
  proof (cases "isConfigured cfg")
    case True
    then show ?thesis
      by (cases "net (append_request cfg sheetName values)")
         (auto simp: appendToSheet_configured Let_def)
  next
    case False
    then show ?thesis by (auto simp: appendToSheet_def)
  qed
next
  fix response
  assume c: "isConfigured cfg" and r: "net (append_request cfg sheetName values) = Normal response"
  {
    assume "response_ok response"
    then show "fst (appendToSheet cfg net sheetName values w) = Normal True"
      using c r by (simp add: appendToSheet_configured)
  }
  {
    assume "status response = 401"
    then have n: "\<not> response_ok response" by (simp add: response_ok_def)
    show "fst (appendToSheet cfg net sheetName values w) = Normal False"
      using c r n \<open>status response = 401\<close> by (simp add: appendToSheet_configured)
    show "console (snd (appendToSheet cfg net sheetName values w)) =
              console w @ [ConsoleWarn msg_read_only, ConsoleWarn msg_write_access]"
      using c r n \<open>status response = 401\<close> by (simp add: appendToSheet_configured)
  }
  {
    assume o: "\<not> response_ok response \<and> status response \<noteq> 401"
    show "fst (appendToSheet cfg net sheetName values w) = Normal False"
      using c r o by (simp add: appendToSheet_configured)
    show "console (snd (appendToSheet cfg net sheetName values w)) =
              console w @ [ConsoleError (emoji_cross @ '' Error syncing to Google Sheets:'') (api_error response)]"
      using c r o by (simp add: appendToSheet_configured)
  }
next
  fix e
  assume c: "isConfigured cfg" and r: "net (append_request cfg sheetName values) = Throw e"
  show "fst (appendToSheet cfg net sheetName values w) = Normal False"
    using c r by (simp add: appendToSheet_configured)
  show "console (snd (appendToSheet cfg net sheetName values w)) =
           console w @ [ConsoleError (emoji_cross @ '' Error syncing to Google Sheets:'') e]"
    using c r by (simp add: appendToSheet_configured)
qed

theorem appendToSheet_never_raises_witness:
  "isConfigured (config (Some ''sheet-1'') (Some ''key-1'')) \<and>
   fst (appendToSheet (config (Some ''sheet-1'') (Some ''key-1''))
          (\<lambda>rq. Normal \<lparr>status = 200, json_body = Normal JNull\<rparr>)
          ''Contacts'' [[''a'']] \<lparr>console = [], requests = ([] :: unit http_request list)\<rparr>) = Normal True \<and>
   fst (appendToSheet (config (Some ''sheet-1'') (Some ''key-1''))
          (\<lambda>rq. Normal \<lparr>status = 401, json_body = Normal JNull\<rparr>)
          ''Contacts'' [[''a'']] \<lparr>console = [], requests = ([] :: unit http_request list)\<rparr>) = Normal False \<and>
   fst (appendToSheet (config (Some ''sheet-1'') (Some ''key-1''))
          (\<lambda>rq. Normal \<lparr>status = 500, json_body = Throw (Error ''Unexpected token'')\<rparr>)
          ''Contacts'' [[''a'']] \<lparr>console = [], requests = ([] :: unit http_request list)\<rparr>) = Normal False \<and>
   fst (appendToSheet (config (Some ''sheet-1'') (Some ''key-1''))
          (\<lambda>rq. Throw (TypeError ''Failed to fetch''))
          ''Contacts'' [[''a'']] \<lparr>console = [], requests = ([] :: unit http_request list)\<rparr>) = Normal False"
proof -
  let ?cfg = "config (Some ''sheet-1'') (Some ''key-1'')"
  let ?w = "\<lparr>console = [], requests = ([] :: unit http_request list)\<rparr>"
  have c: "isConfigured ?cfg"
    by (simp add: isConfigured_def config_def or_empty_def)
  have ok: "fst (appendToSheet ?cfg (\<lambda>rq. Normal \<lparr>status = 200, json_body = Normal JNull\<rparr>)
                  ''Contacts'' [[''a'']] ?w) = Normal True"
    using c appendToSheet_never_raises
            [of ?cfg "\<lambda>rq. Normal \<lparr>status = 200, json_body = Normal JNull\<rparr>" "''Contacts''" "[[''a'']]" ?w]
    by (simp add: response_ok_def)
  have unauth: "fst (appendToSheet ?cfg (\<lambda>rq. Normal \<lparr>status = 401, json_body = Normal JNull\<rparr>)
                  ''Contacts'' [[''a'']] ?w) = Normal False"
    using c appendToSheet_never_raises
            [of ?cfg "\<lambda>rq. Normal \<lparr>status = 401, json_body = Normal JNull\<rparr>" "''Contacts''" "[[''a'']]" ?w]
    by simp
  have failed: "fst (appendToSheet ?cfg (\<lambda>rq. Normal \<lparr>status = 500, json_body = Throw (Error ''Unexpected token'')\<rparr>)
                  ''Contacts'' [[''a'']] ?w) = Normal False"
    using c appendToSheet_never_raises
            [of ?cfg "\<lambda>rq. Normal \<lparr>status = 500, json_body = Throw (Error ''Unexpected token'')\<rparr>"
                "''Contacts''" "[[''a'']]" ?w]
    by (simp add: response_ok_def)
  have down: "fst (appendToSheet ?cfg (\<lambda>rq. Throw (TypeError ''Failed to fetch''))
                  ''Contacts'' [[''a'']] ?w) = Normal False"
    using c appendToSheet_never_raises
            [of ?cfg "\<lambda>rq. Throw (TypeError ''Failed to fetch'')" "''Contacts''" "[[''a'']]" ?w]
    by simp
  from c ok unauth failed down show ?thesis by simp
qed

section \<open>The rows of the sync methods\<close>

lemma appendToSheet_requests:
  "isConfigured cfg \<Longrightarrow>
   requests (snd (appendToSheet cfg net sheetName values w)) =
     requests w @ [append_request cfg sheetName values]"
  by (cases "net (append_request cfg sheetName values)")
     (simp_all add: appendToSheet_configured Let_def)

lemma appendToSheet_ok:
  "isConfigured cfg \<Longrightarrow> net (append_request cfg sheetName values) = Normal r \<Longrightarrow> response_ok r \<Longrightarrow>
   fst (appendToSheet cfg net sheetName values w) = Normal True"
  by (simp add: appendToSheet_configured)

lemma or_empty_cases: "or_empty None = [] \<and> or_empty (Some s) = s"
  by (simp add: or_empty_def)

lemma contact_row:
  assumes "toISOString (Date_new host (c_created_at c)) = Normal ts"
  shows "contact_values host c =
           Normal [[ts, c_name c, c_email c, or_empty (c_phone c), or_empty (c_company c), c_message c]]"
    and "isConfigured cfg \<Longrightarrow>
         requests (snd (syncContact cfg net host c w)) =
           requests w @ [append_request cfg (contacts (sheetNames cfg))
             [[ts, c_name c, c_email c, or_empty (c_phone c), or_empty (c_company c), c_message c]]]"
  using assms by (simp_all add: contact_values_def syncContact_def appendToSheet_requests)

lemma application_row:
  assumes "toISOString (Date_new host (a_created_at a)) = Normal ts"
  shows "application_values host a =
           Normal [[ts, a_full_name a, a_email a, a_phone a, a_position a, a_experience a,
                    or_empty (a_cover_letter a), or_empty (a_resume_url a), a_status a]]"
    and "isConfigured cfg \<Longrightarrow>
         requests (snd (syncJobApplication cfg net host a w)) =
           requests w @ [append_request cfg (jobApplications (sheetNames cfg))
             [[ts, a_full_name a, a_email a, a_phone a, a_position a, a_experience a,
               or_empty (a_cover_letter a), or_empty (a_resume_url a), a_status a]]]"
  using assms by (simp_all add: application_values_def syncJobApplication_def appendToSheet_requests)

lemma request_row:
  assumes "toISOString (Date_new host (g_created_at g)) = Normal ts"
  shows "request_values host g =
           Normal [[ts, g_first_name g, g_last_name g, g_email g, or_empty (g_company g),
                    or_empty (g_phone g), or_empty (g_job_title g), or_empty (g_message g)]]"
    and "isConfigured cfg \<Longrightarrow>
         requests (snd (syncGetStartedRequest cfg net host g w)) =
           requests w @ [append_request cfg (getStartedRequests (sheetNames cfg))
             [[ts, g_first_name g, g_last_name g, g_email g, or_empty (g_company g),
               or_empty (g_phone g), or_empty (g_job_title g), or_empty (g_message g)]]]"
  using assms by (simp_all add: request_values_def syncGetStartedRequest_def appendToSheet_requests)

lemma resume_row:
  assumes "toISOString (Date_new host (r_created_at r)) = Normal ts"
  shows "resume_values host r =
           Normal [[ts, r_full_name r, r_email r, or_empty (r_phone r), or_empty (r_location r),
                    or_empty (r_position_interested r), or_empty (r_experience_level r),
                    or_empty (r_skills r), or_empty (r_cover_letter r), or_empty (r_linkedin_url r),
                    or_empty (r_portfolio_url r), or_empty (r_resume_url r)]]"
    and "isConfigured cfg \<Longrightarrow>
         requests (snd (syncResumeUpload cfg net host r w)) =
           requests w @ [append_request cfg (resumeUploads (sheetNames cfg))
             [[ts, r_full_name r, r_email r, or_empty (r_phone r), or_empty (r_location r),
               or_empty (r_position_interested r), or_empty (r_experience_level r),
               or_empty (r_skills r), or_empty (r_cover_letter r), or_empty (r_linkedin_url r),
               or_empty (r_portfolio_url r), or_empty (r_resume_url r)]]]"
  using assms by (simp_all add: resume_values_def syncResumeUpload_def appendToSheet_requests)

lemma subscription_row:
  assumes "toISOString (Date_new host (n_subscribed_at n)) = Normal ts"
  shows "subscription_values host n = Normal [[ts, n_email n]]"
    and "isConfigured cfg \<Longrightarrow>
         requests (snd (syncNewsletterSubscription cfg net host n w)) =
           requests w @ [append_request cfg (newsletter (sheetNames cfg)) [[ts, n_email n]]]"
  using assms by (simp_all add: subscription_values_def syncNewsletterSubscription_def appendToSheet_requests)

lemma example_timestamp:
  "toISOString (Date_new host ''2024-01-01T00:00:00Z'') = Normal ''2024-01-01T00:00:00.000Z''"
  by code_simp

lemma example_contact:
  assumes "isConfigured cfg" and "\<forall>rq. \<exists>r. net rq = Normal r \<and> response_ok r"
  shows "fst (syncContact cfg net host
                \<lparr>c_name = ''A'', c_email = ''a@x.com'', c_phone = None, c_company = None,
                 c_message = ''hi'', c_created_at = ''2024-01-01T00:00:00Z''\<rparr> w) = Normal True"
    and "requests (snd (syncContact cfg net host
                \<lparr>c_name = ''A'', c_email = ''a@x.com'', c_phone = None, c_company = None,
                 c_message = ''hi'', c_created_at = ''2024-01-01T00:00:00Z''\<rparr> w)) =
           requests w @ [append_request cfg (contacts (sheetNames cfg))
             [[''2024-01-01T00:00:00.000Z'', ''A'', ''a@x.com'', [], [], ''hi'']]]"
proof -
  let ?c = "\<lparr>c_name = ''A'', c_email = ''a@x.com'', c_phone = None, c_company = None,
             c_message = ''hi'', c_created_at = ''2024-01-01T00:00:00Z''\<rparr>"
  let ?row = "[''2024-01-01T00:00:00.000Z'', ''A'', ''a@x.com'', [], [], ''hi'']"
  have ts: "toISOString (Date_new host (c_created_at ?c)) = Normal ''2024-01-01T00:00:00.000Z''"
    using example_timestamp [of host] by simp
  have v: "contact_values host ?c = Normal [?row]"
    using contact_row(1) [OF ts] by (simp add: or_empty_def)
  obtain r where r: "net (append_request cfg (contacts (sheetNames cfg)) [?row]) = Normal r" "response_ok r"
    using assms(2) by blast
  show "fst (syncContact cfg net host ?c w) = Normal True"
    using v assms(1) r by (simp add: syncContact_def appendToSheet_ok)
  show "requests (snd (syncContact cfg net host ?c w)) =
          requests w @ [append_request cfg (contacts (sheetNames cfg)) [?row]]"
    using v assms(1) by (simp add: syncContact_def appendToSheet_requests)
qed

lemma append_request_eq:
  "append_request cfg sheetName values =
     \<lparr>req_url = ''https://sheets.googleapis.com/v4/spreadsheets/'' @ spreadsheetId cfg @ ''/values/''
                 @ sheetName @ '':append?valueInputOption=RAW&key='' @ apiKey cfg,
      req_method = ''POST'',
      req_headers = [(''Content-Type'', ''application/json'')],
      req_body = ValuesBody values\<rparr>"
  by (simp add: append_request_def baseUrl_def)

text \<open>
  C4. Whenever the timestamp of a submission converts, each sync method builds one row
  with the documented cells in the documented order: 6 for a contact, 9 for a job
  application, 8 for a get-started request, 12 for a resume upload and 2 for a newsletter
  subscription, the ISO timestamp first and every optional field through \<open>or_empty\<close>, which
  gives the empty string for a missing field. A configured client sends one request: a
  POST to the append URL of the variant's sheet, with the spreadsheet identifier and the
  key in it, whose body holds exactly this row. For the contact A, a@x.com, hi of
  2024-01-01T00:00:00Z, a configured client and a remote end that always answers with
  success, \<open>syncContact\<close> returns true and the body of the request sent is the row
  2024-01-01T00:00:00.000Z, A, a@x.com, two empty cells, hi.
\<close>

theorem sync_rows_layout:
  "(\<forall>ts. toISOString (Date_new host (c_created_at c)) = Normal ts \<longrightarrow>
      (\<exists>row. contact_values host c = Normal [row] \<and> length row = 6 \<and>
         row = [ts, c_name c, c_email c, or_empty (c_phone c), or_empty (c_company c), c_message c] \<and>
         (isConfigured cfg \<longrightarrow>
            requests (snd (syncContact cfg net host c w)) =
              requests w @
              [\<lparr>req_url = ''https://sheets.googleapis.com/v4/spreadsheets/'' @ spreadsheetId cfg @ ''/values/''
                          @ contacts (sheetNames cfg) @ '':append?valueInputOption=RAW&key='' @ apiKey cfg,
                req_method = ''POST'',
                req_headers = [(''Content-Type'', ''application/json'')],
                req_body = ValuesBody [row]\<rparr>]))) \<and>
   (\<forall>ts. toISOString (Date_new host (a_created_at a)) = Normal ts \<longrightarrow>
      (\<exists>row. application_values host a = Normal [row] \<and> length row = 9 \<and>
         row = [ts, a_full_name a, a_email a, a_phone a, a_position a, a_experience a,
                or_empty (a_cover_letter a), or_empty (a_resume_url a), a_status a] \<and>
         (isConfigured cfg \<longrightarrow>
            requests (snd (syncJobApplication cfg net host a w)) =
              requests w @
              [\<lparr>req_url = ''https://sheets.googleapis.com/v4/spreadsheets/'' @ spreadsheetId cfg @ ''/values/''
                          @ jobApplications (sheetNames cfg) @ '':append?valueInputOption=RAW&key='' @ apiKey cfg,
                req_method = ''POST'',
                req_headers = [(''Content-Type'', ''application/json'')],
                req_body = ValuesBody [row]\<rparr>]))) \<and>
   (\<forall>ts. toISOString (Date_new host (g_created_at g)) = Normal ts \<longrightarrow>
      (\<exists>row. request_values host g = Normal [row] \<and> length row = 8 \<and>
         row = [ts, g_first_name g, g_last_name g, g_email g, or_empty (g_company g),
                or_empty (g_phone g), or_empty (g_job_title g), or_empty (g_message g)] \<and>
         (isConfigured cfg \<longrightarrow>
            requests (snd (syncGetStartedRequest cfg net host g w)) =
              requests w @
              [\<lparr>req_url = ''https://sheets.googleapis.com/v4/spreadsheets/'' @ spreadsheetId cfg @ ''/values/''
                          @ getStartedRequests (sheetNames cfg) @ '':append?valueInputOption=RAW&key='' @ apiKey cfg,
                req_method = ''POST'',
                req_headers = [(''Content-Type'', ''application/json'')],
                req_body = ValuesBody [row]\<rparr>]))) \<and>
   (\<forall>ts. toISOString (Date_new host (r_created_at r)) = Normal ts \<longrightarrow>
      (\<exists>row. resume_values host r = Normal [row] \<and> length row = 12 \<and>
         row = [ts, r_full_name r, r_email r, or_empty (r_phone r), or_empty (r_location r),
                or_empty (r_position_interested r), or_empty (r_experience_level r),
                or_empty (r_skills r), or_empty (r_cover_letter r), or_empty (r_linkedin_url r),
                or_empty (r_portfolio_url r), or_empty (r_resume_url r)] \<and>
         (isConfigured cfg \<longrightarrow>
            requests (snd (syncResumeUpload cfg net host r w)) =
              requests w @
              [\<lparr>req_url = ''https://sheets.googleapis.com/v4/spreadsheets/'' @ spreadsheetId cfg @ ''/values/''
                          @ resumeUploads (sheetNames cfg) @ '':append?valueInputOption=RAW&key='' @ apiKey cfg,
                req_method = ''POST'',
                req_headers = [(''Content-Type'', ''application/json'')],
                req_body = ValuesBody [row]\<rparr>]))) \<and>
   (\<forall>ts. toISOString (Date_new host (n_subscribed_at n)) = Normal ts \<longrightarrow>
      (\<exists>row. subscription_values host n = Normal [row] \<and> length row = 2 \<and>
         row = [ts, n_email n] \<and>
         (isConfigured cfg \<longrightarrow>
            requests (snd (syncNewsletterSubscription cfg net host n w)) =
              requests w @
              [\<lparr>req_url = ''https://sheets.googleapis.com/v4/spreadsheets/'' @ spreadsheetId cfg @ ''/values/''
                          @ newsletter (sheetNames cfg) @ '':append?valueInputOption=RAW&key='' @ apiKey cfg,
                req_method = ''POST'',
                req_headers = [(''Content-Type'', ''application/json'')],
                req_body = ValuesBody [row]\<rparr>]))) \<and>
   (\<forall>v. or_empty v = (case v of None \<Rightarrow> [] | Some s \<Rightarrow> s)) \<and>
   (isConfigured cfg \<and> (\<forall>rq. \<exists>rs. net rq = Normal rs \<and> response_ok rs) \<longrightarrow>
      fst (syncContact cfg net host
             \<lparr>c_name = ''A'', c_email = ''a@x.com'', c_phone = None, c_company = None,
              c_message = ''hi'', c_created_at = ''2024-01-01T00:00:00Z''\<rparr> w) = Normal True \<and>
      requests (snd (syncContact cfg net host
             \<lparr>c_name = ''A'', c_email = ''a@x.com'', c_phone = None, c_company = None,
              c_message = ''hi'', c_created_at = ''2024-01-01T00:00:00Z''\<rparr> w)) =
        requests w @
        [\<lparr>req_url = ''https://sheets.googleapis.com/v4/spreadsheets/'' @ spreadsheetId cfg @ ''/values/''
                    @ contacts (sheetNames cfg) @ '':append?valueInputOption=RAW&key='' @ apiKey cfg,
          req_method = ''POST'',
          req_headers = [(''Content-Type'', ''application/json'')],
          req_body = ValuesBody [[''2024-01-01T00:00:00.000Z'', ''A'', ''a@x.com'', [], [], ''hi'']]\<rparr>])"
proof (intro conjI)
  show "\<forall>ts. toISOString (Date_new host (c_created_at c)) = Normal ts \<longrightarrow>
      (\<exists>row. contact_values host c = Normal [row] \<and> length row = 6 \<and>
         row = [ts, c_name c, c_email c, or_empty (c_phone c), or_empty (c_company c), c_message c] \<and>
         (isConfigured cfg \<longrightarrow>
            requests (snd (syncContact cfg net host c w)) =
              requests w @
              [\<lparr>req_url = ''https://sheets.googleapis.com/v4/spreadsheets/'' @ spreadsheetId cfg @ ''/values/''
                          @ contacts (sheetNames cfg) @ '':append?valueInputOption=RAW&key='' @ apiKey cfg,
                req_method = ''POST'',
                req_headers = [(''Content-Type'', ''application/json'')],
                req_body = ValuesBody [row]\<rparr>]))"
    by (simp add: contact_row append_request_eq)
  show "\<forall>ts. toISOString (Date_new host (a_created_at a)) = Normal ts \<longrightarrow>
      (\<exists>row. application_values host a = Normal [row] \<and> length row = 9 \<and>
         row = [ts, a_full_name a, a_email a, a_phone a, a_position a, a_experience a,
                or_empty (a_cover_letter a), or_empty (a_resume_url a), a_status a] \<and>
         (isConfigured cfg \<longrightarrow>
            requests (snd (syncJobApplication cfg net host a w)) =
              requests w @
              [\<lparr>req_url = ''https://sheets.googleapis.com/v4/spreadsheets/'' @ spreadsheetId cfg @ ''/values/''
                          @ jobApplications (sheetNames cfg) @ '':append?valueInputOption=RAW&key='' @ apiKey cfg,
                req_method = ''POST'',
                req_headers = [(''Content-Type'', ''application/json'')],
                req_body = ValuesBody [row]\<rparr>]))"
    by (simp add: application_row append_request_eq)
  show "\<forall>ts. toISOString (Date_new host (g_created_at g)) = Normal ts \<longrightarrow>
      (\<exists>row. request_values host g = Normal [row] \<and> length row = 8 \<and>
         row = [ts, g_first_name g, g_last_name g, g_email g, or_empty (g_company g),
                or_empty (g_phone g), or_empty (g_job_title g), or_empty (g_message g)] \<and>
         (isConfigured cfg \<longrightarrow>
            requests (snd (syncGetStartedRequest cfg net host g w)) =
              requests w @
              [\<lparr>req_url = ''https://sheets.googleapis.com/v4/spreadsheets/'' @ spreadsheetId cfg @ ''/values/''
                          @ getStartedRequests (sheetNames cfg) @ '':append?valueInputOption=RAW&key='' @ apiKey cfg,
                req_method = ''POST'',
                req_headers = [(''Content-Type'', ''application/json'')],
                req_body = ValuesBody [row]\<rparr>]))"
    by (simp add: request_row append_request_eq)
  show "\<forall>ts. toISOString (Date_new host (r_created_at r)) = Normal ts \<longrightarrow>
      (\<exists>row. resume_values host r = Normal [row] \<and> length row = 12 \<and>
         row = [ts, r_full_name r, r_email r, or_empty (r_phone r), or_empty (r_location r),
                or_empty (r_position_interested r), or_empty (r_experience_level r),
                or_empty (r_skills r), or_empty (r_cover_letter r), or_empty (r_linkedin_url r),
                or_empty (r_portfolio_url r), or_empty (r_resume_url r)] \<and>
         (isConfigured cfg \<longrightarrow>
            requests (snd (syncResumeUpload cfg net host r w)) =
              requests w @
              [\<lparr>req_url = ''https://sheets.googleapis.com/v4/spreadsheets/'' @ spreadsheetId cfg @ ''/values/''
                          @ resumeUploads (sheetNames cfg) @ '':append?valueInputOption=RAW&key='' @ apiKey cfg,
                req_method = ''POST'',
                req_headers = [(''Content-Type'', ''application/json'')],
                req_body = ValuesBody [row]\<rparr>]))"
    by (simp add: resume_row append_request_eq)
  show "\<forall>ts. toISOString (Date_new host (n_subscribed_at n)) = Normal ts \<longrightarrow>
      (\<exists>row. subscription_values host n = Normal [row] \<and> length row = 2 \<and>
         row = [ts, n_email n] \<and>
         (isConfigured cfg \<longrightarrow>
            requests (snd (syncNewsletterSubscription cfg net host n w)) =
              requests w @
              [\<lparr>req_url = ''https://sheets.googleapis.com/v4/spreadsheets/'' @ spreadsheetId cfg @ ''/values/''
                          @ newsletter (sheetNames cfg) @ '':append?valueInputOption=RAW&key='' @ apiKey cfg,
                req_method = ''POST'',
                req_headers = [(''Content-Type'', ''application/json'')],
                req_body = ValuesBody [row]\<rparr>]))"
    by (simp add: subscription_row append_request_eq)
  show "\<forall>v. or_empty v = (case v of None \<Rightarrow> [] | Some s \<Rightarrow> s)"
    by (simp add: or_empty_def split: option.splits)
  show "isConfigured cfg \<and> (\<forall>rq. \<exists>rs. net rq = Normal rs \<and> response_ok rs) \<longrightarrow>
      fst (syncContact cfg net host
             \<lparr>c_name = ''A'', c_email = ''a@x.com'', c_phone = None, c_company = None,
              c_message = ''hi'', c_created_at = ''2024-01-01T00:00:00Z''\<rparr> w) = Normal True \<and>
      requests (snd (syncContact cfg net host
             \<lparr>c_name = ''A'', c_email = ''a@x.com'', c_phone = None, c_company = None,
              c_message = ''hi'', c_created_at = ''2024-01-01T00:00:00Z''\<rparr> w)) =
        requests w @
        [\<lparr>req_url = ''https://sheets.googleapis.com/v4/spreadsheets/'' @ spreadsheetId cfg @ ''/values/''
                    @ contacts (sheetNames cfg) @ '':append?valueInputOption=RAW&key='' @ apiKey cfg,
          req_method = ''POST'',
          req_headers = [(''Content-Type'', ''application/json'')],
          req_body = ValuesBody [[''2024-01-01T00:00:00.000Z'', ''A'', ''a@x.com'', [], [], ''hi'']]\<rparr>]"
    using example_contact [of cfg net host w] by (simp add: append_request_eq)
qed

theorem sync_rows_layout_witness:
  "isConfigured (config (Some ''sheet-1'') (Some ''key-1'')) \<and>
   contact_values (\<lambda>s. None)
      \<lparr>c_name = ''A'', c_email = ''a@x.com'', c_phone = None, c_company = Some ''ACME'',
       c_message = ''hi'', c_created_at = ''2024-01-01T00:00:00Z''\<rparr> =
     Normal [[''2024-01-01T00:00:00.000Z'', ''A'', ''a@x.com'', [], ''ACME'', ''hi'']] \<and>
   application_values (\<lambda>s. None)
      \<lparr>a_full_name = ''B'', a_email = ''b@x.com'', a_phone = ''1'', a_position = ''dev'',
       a_experience = ''2y'', a_cover_letter = None, a_resume_url = None, a_status = ''new'',
       a_created_at = ''2024-01-01T00:00:00Z''\<rparr> =
     Normal [[''2024-01-01T00:00:00.000Z'', ''B'', ''b@x.com'', ''1'', ''dev'', ''2y'', [], [], ''new'']] \<and>
   request_values (\<lambda>s. None)
      \<lparr>g_first_name = ''C'', g_last_name = ''D'', g_email = ''c@x.com'', g_company = None,
       g_phone = None, g_job_title = None, g_message = None,
       g_created_at = ''2024-01-01T00:00:00Z''\<rparr> =
     Normal [[''2024-01-01T00:00:00.000Z'', ''C'', ''D'', ''c@x.com'', [], [], [], []]] \<and>
   resume_values (\<lambda>s. None)
      \<lparr>r_full_name = ''E'', r_email = ''e@x.com'', r_phone = None, r_location = None,
       r_position_interested = None, r_experience_level = None, r_skills = Some ''ml'',
       r_cover_letter = None, r_linkedin_url = None, r_portfolio_url = None, r_resume_url = None,
       r_created_at = ''2024-01-01T00:00:00Z''\<rparr> =
     Normal [[''2024-01-01T00:00:00.000Z'', ''E'', ''e@x.com'', [], [], [], [], ''ml'', [], [], [], []]] \<and>
   subscription_values (\<lambda>s. None)
      \<lparr>n_email = ''f@x.com'', n_subscribed_at = ''2024-01-01T00:00:00Z''\<rparr> =
     Normal [[''2024-01-01T00:00:00.000Z'', ''f@x.com'']] \<and>
   syncContact (config (Some ''sheet-1'') (Some ''key-1''))
      (\<lambda>rq. Normal \<lparr>status = 200, json_body = Normal JNull\<rparr>) (\<lambda>s. None)
      \<lparr>c_name = ''A'', c_email = ''a@x.com'', c_phone = None, c_company = None,
       c_message = ''hi'', c_created_at = ''2024-01-01T00:00:00Z''\<rparr>
      \<lparr>console = [], requests = ([] :: unit http_request list)\<rparr> =
     (Normal True,
      \<lparr>console = [ConsoleLog (emoji_check @ '' Successfully synced to Google Sheets: Contacts'')],
       requests =
         [\<lparr>req_url = ''https://sheets.googleapis.com/v4/spreadsheets/sheet-1/values/Contacts:append?valueInputOption=RAW&key=key-1'',
          req_method = ''POST'',
          req_headers = [(''Content-Type'', ''application/json'')],
          req_body = ValuesBody [[''2024-01-01T00:00:00.000Z'', ''A'', ''a@x.com'', [], [], ''hi'']]\<rparr>]\<rparr>)"
proof -
  let ?cfg = "config (Some ''sheet-1'') (Some ''key-1'')"
  let ?net = "\<lambda>rq :: unit http_request. Normal \<lparr>status = 200, json_body = Normal JNull\<rparr>"
  let ?w = "\<lparr>console = [], requests = ([] :: unit http_request list)\<rparr>"
  let ?c = "\<lparr>c_name = ''A'', c_email = ''a@x.com'', c_phone = None, c_company = Some ''ACME'',
       c_message = ''hi'', c_created_at = ''2024-01-01T00:00:00Z''\<rparr>"
  let ?a = "\<lparr>a_full_name = ''B'', a_email = ''b@x.com'', a_phone = ''1'', a_position = ''dev'',
       a_experience = ''2y'', a_cover_letter = None, a_resume_url = None, a_status = ''new'',
       a_created_at = ''2024-01-01T00:00:00Z''\<rparr>"
  let ?g = "\<lparr>g_first_name = ''C'', g_last_name = ''D'', g_email = ''c@x.com'', g_company = None,
       g_phone = None, g_job_title = None, g_message = None,
       g_created_at = ''2024-01-01T00:00:00Z''\<rparr>"
  let ?r = "\<lparr>r_full_name = ''E'', r_email = ''e@x.com'', r_phone = None, r_location = None,
       r_position_interested = None, r_experience_level = None, r_skills = Some ''ml'',
       r_cover_letter = None, r_linkedin_url = None, r_portfolio_url = None, r_resume_url = None,
       r_created_at = ''2024-01-01T00:00:00Z''\<rparr>"
  let ?n = "\<lparr>n_email = ''f@x.com'', n_subscribed_at = ''2024-01-01T00:00:00Z''\<rparr>"
  let ?ex = "\<lparr>c_name = ''A'', c_email = ''a@x.com'', c_phone = None, c_company = None,
       c_message = ''hi'', c_created_at = ''2024-01-01T00:00:00Z''\<rparr>"
  let ?rq = "\<lparr>req_url = ''https://sheets.googleapis.com/v4/spreadsheets/sheet-1/values/Contacts:append?valueInputOption=RAW&key=key-1'',
          req_method = ''POST'',
          req_headers = [(''Content-Type'', ''application/json'')],
          req_body = ValuesBody [[''2024-01-01T00:00:00.000Z'', ''A'', ''a@x.com'', [], [], ''hi'']]\<rparr> :: unit http_request"
  have ts: "toISOString (Date_new (\<lambda>s. None) ''2024-01-01T00:00:00Z'') = Normal ''2024-01-01T00:00:00.000Z''"
    by (rule example_timestamp)
  have cfg: "isConfigured ?cfg"
    by (simp add: isConfigured_def config_def or_empty_def)
  have fields: "contacts (sheetNames ?cfg) = ''Contacts''" "spreadsheetId ?cfg = ''sheet-1''"
    "apiKey ?cfg = ''key-1''"
    by (simp_all add: config_def or_empty_def)
  have net: "\<forall>rq. \<exists>rs. ?net rq = Normal rs \<and> response_ok rs"
    by (simp add: response_ok_def)
  note T = sync_rows_layout [where host = "\<lambda>s. None" and cfg = ?cfg and net = ?net and w = ?w
                               and c = ?c and a = ?a and g = ?g and r = ?r and n = ?n]
  have rows: "contact_values (\<lambda>s. None) ?c =
       Normal [[''2024-01-01T00:00:00.000Z'', ''A'', ''a@x.com'', [], ''ACME'', ''hi'']]"
    "application_values (\<lambda>s. None) ?a =
       Normal [[''2024-01-01T00:00:00.000Z'', ''B'', ''b@x.com'', ''1'', ''dev'', ''2y'', [], [], ''new'']]"
    "request_values (\<lambda>s. None) ?g =
       Normal [[''2024-01-01T00:00:00.000Z'', ''C'', ''D'', ''c@x.com'', [], [], [], []]]"
    "resume_values (\<lambda>s. None) ?r =
       Normal [[''2024-01-01T00:00:00.000Z'', ''E'', ''e@x.com'', [], [], [], [], ''ml'', [], [], [], []]]"
    "subscription_values (\<lambda>s. None) ?n = Normal [[''2024-01-01T00:00:00.000Z'', ''f@x.com'']]"
    using T ts by (simp_all add: or_empty_def)
  have sent: "fst (syncContact ?cfg ?net (\<lambda>s. None) ?ex ?w) = Normal True"
    "requests (snd (syncContact ?cfg ?net (\<lambda>s. None) ?ex ?w)) = [?rq]"
    using T cfg net fields by simp_all
  have logged: "console (snd (syncContact ?cfg ?net (\<lambda>s. None) ?ex ?w)) =
       [ConsoleLog (emoji_check @ '' Successfully synced to Google Sheets: Contacts'')]"
    using cfg ts fields
    by (simp add: syncContact_def contact_values_def appendToSheet_configured response_ok_def)
  have whole: "syncContact ?cfg ?net (\<lambda>s. None) ?ex ?w =
      (Normal True,
       \<lparr>console = [ConsoleLog (emoji_check @ '' Successfully synced to Google Sheets: Contacts'')],
        requests = [?rq]\<rparr>)"
    using sent logged by (cases "syncContact ?cfg ?net (\<lambda>s. None) ?ex ?w") simp
  from cfg rows whole show ?thesis by simp
qed

section \<open>The background combinator\<close>

text \<open>
  With a sync operation that returns a promise, as every \<^verbatim>\<open>async\<close> function does, the
  combinator returns the primary result without running the promise; the promise it leaves
  behind logs a rejection and is never rejected itself.
\<close>

lemma withGoogleSheetsSync_promise:
  assumes "supabaseOperation w = (Normal result, w1)" and "syncOperation w1 = (Normal p, w2)"
  shows "withGoogleSheetsSync supabaseOperation syncOperation w =
           (Normal result, w2, [promise_catch p (console_error ''Background Google Sheets sync failed:'')])"
  using assms by (simp add: withGoogleSheetsSync_def)

lemma withGoogleSheetsSync_async:
  assumes "supabaseOperation w = (r, w1)"
  shows "fst (withGoogleSheetsSync supabaseOperation (async_call body) w) = r"
  using assms by (cases r) (simp_all add: withGoogleSheetsSync_def async_call_def)

lemma promise_catch_rejected:
  assumes "await p w = (Throw error, w1)"
  shows "await (promise_catch p (console_error ''Background Google Sheets sync failed:'')) w =
           (Normal None, console_error ''Background Google Sheets sync failed:'' error w1)"
  using assms by (cases p) simp

lemma promise_catch_fulfilled:
  assumes "await p w = (Normal b, w1)"
  shows "await (promise_catch p handler) w = (Normal (Some b), w1)"
  using assms by (cases p) simp

lemma withGoogleSheetsSync_primary_fails:
  assumes "supabaseOperation w = (Throw e, w1)"
  shows "withGoogleSheetsSync supabaseOperation syncOperation w = (Throw e, w1, [])"
  using assms by (simp add: withGoogleSheetsSync_def)

text \<open>
  C2. The primary operation resolves to 42 and the call of the sync operation throws
  before it returns a promise (a function that is not \<^verbatim>\<open>async\<close>, or whose argument
  expression throws): there is no promise to attach the handler to, the error leaves
  \<open>withGoogleSheetsSync\<close>, nothing is logged and the primary result is lost.
\<close>

theorem withGoogleSheetsSync_sync_throws:
  "withGoogleSheetsSync (\<lambda>w. (Normal (42 :: int), w)) (\<lambda>w. (Throw (Error ''boom''), w))
     \<lparr>console = [], requests = ([] :: unit http_request list)\<rparr> =
   (Throw (Error ''boom''), \<lparr>console = [], requests = []\<rparr>, [])"
  by (simp add: withGoogleSheetsSync_def)

section \<open>Properties of the proxy client\<close>

lemma syncToServer_never_raises:
  "\<exists>v. fst (syncToServer net endpoint data w) = Normal v"
  by (cases "syncToServer_try net endpoint data w"; cases "fst (syncToServer_try net endpoint data w)")
     (auto simp: syncToServer_def)

lemma proxy_sync_always_raises:
  "\<exists>e. fst (proxy_syncContact cfg host c w) = Throw e"
  "\<exists>e. fst (proxy_syncJobApplication cfg host a w) = Throw e"
  "\<exists>e. fst (proxy_syncGetStartedRequest cfg host g w) = Throw e"
  "\<exists>e. fst (proxy_syncResumeUpload cfg host r w) = Throw e"
  "\<exists>e. fst (proxy_syncNewsletterSubscription cfg host n w) = Throw e"
  by (auto simp: proxy_syncContact_def proxy_syncJobApplication_def proxy_syncGetStartedRequest_def
        proxy_syncResumeUpload_def proxy_syncNewsletterSubscription_def proxy_appendToSheet_def
      split: completion.splits)

text \<open>
  C3. The contact A, a@x.com, hi of 2024-01-01T00:00:00Z given to \<open>syncContact\<close> of the
  proxy client: the row is built, the call of the missing \<open>appendToSheet\<close> throws a
  TypeError, and the promise of \<open>syncContact\<close> is rejected with it; no request is sent and
  nothing is logged. The other four sync methods end the same way.
\<close>

theorem proxy_syncContact_raises:
  "proxy_syncContact cfg host
     \<lparr>c_name = ''A'', c_email = ''a@x.com'', c_phone = None, c_company = None,
      c_message = ''hi'', c_created_at = ''2024-01-01T00:00:00Z''\<rparr> w =
   (Throw (TypeError ''this.appendToSheet is not a function''), w)"
  using example_timestamp [of host]
  by (simp add: proxy_syncContact_def contact_values_def proxy_appendToSheet_def)

lemma initializeSheets_direct:
  "\<not> isConfigured cfg \<Longrightarrow>
     initializeSheets cfg w = console_warn ''Google Sheets not configured. Skipping initialization.'' w"
  "isConfigured cfg \<Longrightarrow> initializeSheets cfg w = console_log ''Google Sheets service initialized'' w"
  "requests (initializeSheets cfg w) = requests w"
  by (simp_all add: initializeSheets_def)

lemma proxy_initializeSheets_always_ready:
  "console (fst (proxy_initializeSheets net w)) =
     console w @ [ConsoleLog ''Google Sheets service initialized'']"
  by (simp add: proxy_initializeSheets_def proxy_isConfigured_def fetch_def)

text \<open>
  C9. The proxy client whose status endpoint answers that the backend is not configured:
  \<open>initializeSheets\<close> tests the promise of \<open>isConfigured\<close>, not its value, so it logs the
  readiness message and no warning, although the promise resolves to false.
\<close>

theorem proxy_initializeSheets_not_configured:
  "console (fst (proxy_initializeSheets
       (\<lambda>rq. Normal \<lparr>status = 200,
                       json_body = Normal (JObj [(''success'', JBool True),
                                                 (''data'', JObj [(''configured'', JBool False)])])\<rparr>)
       \<lparr>console = [], requests = ([] :: unit http_request list)\<rparr>)) =
     [ConsoleLog ''Google Sheets service initialized''] \<and>
   fst (await (snd (proxy_initializeSheets
       (\<lambda>rq. Normal \<lparr>status = 200,
                       json_body = Normal (JObj [(''success'', JBool True),
                                                 (''data'', JObj [(''configured'', JBool False)])])\<rparr>)
       \<lparr>console = [], requests = ([] :: unit http_request list)\<rparr>))
     \<lparr>console = [], requests = []\<rparr>) = Normal (Some (JBool False))"
  by (simp add: proxy_initializeSheets_def proxy_isConfigured_def fetch_def
        proxy_isConfigured_try_def response_ok_def)

section \<open>Deleting and uploading images\<close>

lemma uploadsDir_eq: "uploadsDir cwd = cwd @ [''uploads'']"
  by (simp add: uploadsDir_def path_join_def)

lemma split_slash_no_slash: "CHR ''/'' \<notin> set s \<Longrightarrow> split_slash s = [s]"
  by (induction s) auto

lemma basename_no_slash: "CHR ''/'' \<notin> set (basename u)"
  by (auto simp: basename_def dest: set_takeWhileD)

lemma path_join_basename:
  "path_join (uploadsDir cwd) (basename u) =
     (if basename u = [] \<or> basename u = ''.'' then uploadsDir cwd
      else if basename u = ''..'' then cwd
      else uploadsDir cwd @ [basename u])"
  by (simp add: path_join_def split_slash_no_slash [OF basename_no_slash] uploadsDir_eq)

lemma deleteImage_url:
  assumes "js_get body ''url'' = Normal (Some (JStr u))" "u \<noteq> []" "startsWith u ''/api/uploads/''"
  shows "deleteImage cwd body st =
     (let p = path_join (uploadsDir cwd) (basename u);
          st1 = st\<lparr>fs_calls := fs_calls st @ [ExistsSync p]\<rparr>;
          st2 = st\<lparr>fs_calls := fs_calls st @ [ExistsSync p, UnlinkSync p]\<rparr>
      in case files st p of
           None \<Rightarrow> (delete_ok, st1)
         | Some File \<Rightarrow>
             (delete_ok, server_log (ConsoleLog (''Deleted image: '' @ basename u))
                           (st2\<lparr>files := (files st)(p := None)\<rparr>))
         | Some ReadOnlyFile \<Rightarrow>
             (delete_failed, server_log (ConsoleError ''Error deleting image:''
                 (SystemError ''EACCES: permission denied, unlink'')) st2)
         | Some Dir \<Rightarrow>
             (delete_failed, server_log (ConsoleError ''Error deleting image:''
                 (SystemError ''EISDIR: illegal operation on a directory, unlink'')) st2))"
  using assms
  by (simp add: deleteImage_def deleteImage_try_def remove_upload_def existsSync_def unlinkSync_def
        Let_def split: option.splits fnode.splits)

lemma deleteImage_skip:
  assumes "js_get body ''url'' = Normal url"
    and "\<not> js_truthy url \<or> (\<exists>u. url = Some (JStr u) \<and> \<not> startsWith u ''/api/uploads/'')"
  shows "deleteImage cwd body st = (delete_ok, st)"
  using assms
  by (auto simp: deleteImage_def deleteImage_try_def split: option.splits json.splits)

lemma deleteImage_not_string:
  assumes "js_get body ''url'' = Normal url" and "js_truthy url" and "\<forall>u. url \<noteq> Some (JStr u)"
  shows "deleteImage cwd body st =
     (delete_failed, server_log (ConsoleError ''Error deleting image:''
                                   (TypeError ''url.startsWith is not a function'')) st)"
  using assms
  by (auto simp: deleteImage_def deleteImage_try_def split: option.splits json.splits)

lemma deleteImage_no_body:
  assumes "js_get body ''url'' = Throw e"
  shows "deleteImage cwd body st = (delete_failed, server_log (ConsoleError ''Error deleting image:'' e) st)"
  using assms by (simp add: deleteImage_def deleteImage_try_def)


lemma files_server_log [simp]: "files (server_log e st) = files st"
  by (simp add: server_log_def)

lemma url_cases:
  obtains (prefixed) u where "url = Some (JStr u)" "u \<noteq> []" "startsWith u ''/api/uploads/''"
  | (skipped) "\<not> js_truthy url \<or> (\<exists>u. url = Some (JStr u) \<and> \<not> startsWith u ''/api/uploads/'')"
  | (not_string) "js_truthy url" "\<forall>u. url \<noteq> Some (JStr u)"
proof (cases "\<exists>u. url = Some (JStr u)")
  case True
  then obtain u where u: "url = Some (JStr u)" by blast
  show ?thesis
  proof (cases "u \<noteq> [] \<and> startsWith u ''/api/uploads/''")
    case True
    with u show ?thesis using prefixed by blast
  next
    case False
    with u show ?thesis using skipped by auto
  qed
next
  case False
  then show ?thesis using skipped not_string by blast
qed

text \<open>
  What \<open>deleteImage\<close> can remove. When the working directory and the uploads directory
  are directories, not files, the only path whose content changes is a file directly
  inside the uploads directory, named by one segment that is neither empty, \<^verbatim>\<open>.\<close> nor
  \<^verbatim>\<open>..\<close> and holds no slash. Without these two assumptions the statement fails: the
  segments \<^verbatim>\<open>.\<close> and \<^verbatim>\<open>..\<close> resolve to the uploads directory and to its parent.
\<close>

lemma deleteImage_stays_in_uploads:
  assumes "files st cwd \<noteq> Some File" and "files st (uploadsDir cwd) \<noteq> Some File"
  shows "files (snd (deleteImage cwd body st)) p \<noteq> files st p \<longrightarrow>
         (\<exists>name. name \<noteq> [] \<and> CHR ''/'' \<notin> set name \<and> name \<noteq> ''.'' \<and> name \<noteq> ''..'' \<and>
                 p = uploadsDir cwd @ [name] \<and> files st p = Some File \<and>
                 files (snd (deleteImage cwd body st)) p = None)"
proof (cases "js_get body ''url''")
  case (Throw e)
  then show ?thesis by (simp add: deleteImage_no_body)
next
  case (Normal url)
  show ?thesis
  proof (cases url rule: url_cases)
    case (prefixed u)
    let ?p = "path_join (uploadsDir cwd) (basename u)"
    note d = deleteImage_url [OF Normal [unfolded prefixed(1)] prefixed(2,3), of cwd st]
    show ?thesis
    proof (cases "files st ?p")
      case None
      then show ?thesis using d by (simp add: Let_def)
    next
      case (Some node)
      show ?thesis
      proof (cases node)
        case File
        have f: "files st ?p = Some File" using Some File by simp
        have inside: "basename u \<noteq> [] \<and> basename u \<noteq> ''.'' \<and> basename u \<noteq> ''..'' \<and>
                      ?p = uploadsDir cwd @ [basename u]"
          using f assms by (auto simp: path_join_basename split: if_splits)
        have post: "files (snd (deleteImage cwd body st)) = (files st)(?p := None)"
          using d f by (simp add: Let_def)
        show ?thesis
        proof
          assume "files (snd (deleteImage cwd body st)) p \<noteq> files st p"
          then have "p = ?p" using post by (auto split: if_splits)
          then show "\<exists>name. name \<noteq> [] \<and> CHR ''/'' \<notin> set name \<and> name \<noteq> ''.'' \<and> name \<noteq> ''..'' \<and>
                 p = uploadsDir cwd @ [name] \<and> files st p = Some File \<and>
                 files (snd (deleteImage cwd body st)) p = None"
            using inside f post basename_no_slash [of u] by (intro exI [of _ "basename u"]) simp
        qed
      next
        case ReadOnlyFile
        then show ?thesis using d Some by (simp add: Let_def)
      next
        case Dir
        then show ?thesis using d Some by (simp add: Let_def)
      qed
    qed
  next
    case skipped
    then show ?thesis using deleteImage_skip [OF Normal] by simp
  next
    case not_string
    then show ?thesis using deleteImage_not_string [OF Normal] by simp
  qed
qed

lemma deleteImage_stays_in_uploads_example:
  "files \<lparr>files = map_of [([''app''], Dir), ([''app'', ''uploads''], Dir),
                            ([''app'', ''uploads'', ''passwd''], File), ([''etc'', ''passwd''], File)],
          fs_calls = [], logged = []\<rparr> [''app''] \<noteq> Some File \<and>
   files \<lparr>files = map_of [([''app''], Dir), ([''app'', ''uploads''], Dir),
                            ([''app'', ''uploads'', ''passwd''], File), ([''etc'', ''passwd''], File)],
          fs_calls = [], logged = []\<rparr> (uploadsDir [''app'']) \<noteq> Some File \<and>
   files (snd (deleteImage [''app''] (Some (JObj [(''url'', JStr ''/api/uploads/../../etc/passwd'')]))
            \<lparr>files = map_of [([''app''], Dir), ([''app'', ''uploads''], Dir),
                              ([''app'', ''uploads'', ''passwd''], File), ([''etc'', ''passwd''], File)],
             fs_calls = [], logged = []\<rparr>)) [''etc'', ''passwd''] = Some File"
proof -
  let ?st = "\<lparr>files = map_of [([''app''], Dir), ([''app'', ''uploads''], Dir),
                              ([''app'', ''uploads'', ''passwd''], File), ([''etc'', ''passwd''], File)],
             fs_calls = [], logged = []\<rparr>"
  let ?body = "Some (JObj [(''url'', JStr ''/api/uploads/../../etc/passwd'')])"
  have a: "files ?st [''app''] \<noteq> Some File" by simp
  have b: "files ?st (uploadsDir [''app'']) \<noteq> Some File" by (simp add: uploadsDir_eq)
  have c: "files ?st [''etc'', ''passwd''] = Some File" by simp
  have "\<not> (\<exists>name. [''etc'', ''passwd''] = uploadsDir [''app''] @ [name])"
    by (simp add: uploadsDir_eq)
  with deleteImage_stays_in_uploads [OF a b, of ?body "[''etc'', ''passwd'']"]
  have "files (snd (deleteImage [''app''] ?body ?st)) [''etc'', ''passwd''] = files ?st [''etc'', ''passwd'']"
    by blast
  with a b c show ?thesis by simp
qed

lemma traversal_resolves_inside:
  "path_join (uploadsDir [''app'']) (basename ''/api/uploads/../../etc/passwd'') = [''app'', ''uploads'', ''passwd'']"
  by (simp add: uploadsDir_eq path_join_def basename_def)

lemma fs_calls_server_log [simp]: "fs_calls (server_log e st) = fs_calls st"
  by (simp add: server_log_def)

lemma deleteImage_dot_removes_uploads:
  "files (snd (deleteImage [''app''] (Some (JObj [(''url'', JStr ''/api/uploads/.'')]))
            \<lparr>files = map_of [([''app''], Dir), ([''app'', ''uploads''], File)],
             fs_calls = [], logged = []\<rparr>)) [''app'', ''uploads''] = None"
  by (simp add: deleteImage_def deleteImage_try_def remove_upload_def existsSync_def unlinkSync_def
        server_log_def startsWith_def basename_def path_join_def uploadsDir_eq Let_def)

text \<open>
  C7. The URL \<^verbatim>\<open>/api/uploads/..\<close> passes the prefix test; its base name is \<^verbatim>\<open>..\<close>, and
  \<^verbatim>\<open>path.join\<close> resolves it to the working directory, the parent of the uploads
  directory. \<open>deleteImage\<close> calls \<^verbatim>\<open>existsSync\<close> and then \<^verbatim>\<open>unlinkSync\<close> on that path, which
  is not inside the uploads directory; the removal fails only because the path is a
  directory, and the request is answered 500.
\<close>

theorem deleteImage_resolves_parent:
  "startsWith ''/api/uploads/..'' ''/api/uploads/'' \<and>
   path_join (uploadsDir [''app'']) (basename ''/api/uploads/..'') = [''app''] \<and>
   deleteImage [''app''] (Some (JObj [(''url'', JStr ''/api/uploads/..'')]))
      \<lparr>files = map_of [([''app''], Dir), ([''app'', ''uploads''], Dir)], fs_calls = [], logged = []\<rparr> =
     (\<lparr>res_status = 500,
       res_body = JsonBody (JObj [(''success'', JBool False),
                                  (''error'', JStr ''Failed to delete image'')])\<rparr>,
      \<lparr>files = map_of [([''app''], Dir), ([''app'', ''uploads''], Dir)],
       fs_calls = [ExistsSync [''app''], UnlinkSync [''app'']],
       logged = [ConsoleError ''Error deleting image:''
                   (SystemError ''EISDIR: illegal operation on a directory, unlink'')]\<rparr>)"
  by (simp add: deleteImage_def deleteImage_try_def remove_upload_def existsSync_def unlinkSync_def
        server_log_def delete_failed_def startsWith_def basename_def path_join_def uploadsDir_eq
        Let_def)




text \<open>
  C10, amended. A request whose body is present (neither \<^verbatim>\<open>undefined\<close> nor \<^verbatim>\<open>null\<close>) and
  has no \<^verbatim>\<open>url\<close>, or a falsy one, or a string that does not start with \<^verbatim>\<open>/api/uploads/\<close>,
  leaves the server as it is (no file-system call, no log line) and is answered 200 with
  \<^verbatim>\<open>success: true\<close> and the message of a deletion, the same response as after the removal
  of a file. A request without a body, or with a truthy \<^verbatim>\<open>url\<close> that is not a string, is
  answered 500 with \<^verbatim>\<open>success: false\<close>, again without any file-system call and with the
  files unchanged.
\<close>

theorem deleteImage_ignored_request:
  "((\<exists>url. js_get body ''url'' = Normal url) \<longleftrightarrow> body \<noteq> None \<and> body \<noteq> Some JNull) \<and>
   (js_get body ''url'' = Normal url \<and>
    (\<not> js_truthy url \<or> (\<exists>u. url = Some (JStr u) \<and> \<not> startsWith u ''/api/uploads/'')) \<longrightarrow>
      deleteImage cwd body st =
       (\<lparr>res_status = 200,
       res_body = JsonBody (JObj [(''success'', JBool True),
                                  (''message'', JStr ''Image deleted successfully'')])\<rparr>, st)) \<and>
   (js_get body ''url'' = Normal url \<and> js_truthy url \<and> (\<forall>u. url \<noteq> Some (JStr u)) \<longrightarrow>
      fst (deleteImage cwd body st) =
       \<lparr>res_status = 500,
       res_body = JsonBody (JObj [(''success'', JBool False),
                                  (''error'', JStr ''Failed to delete image'')])\<rparr> \<and>
      fs_calls (snd (deleteImage cwd body st)) = fs_calls st \<and>
      files (snd (deleteImage cwd body st)) = files st) \<and>
   (body = None \<or> body = Some JNull \<longrightarrow>
      fst (deleteImage cwd body st) =
       \<lparr>res_status = 500,
       res_body = JsonBody (JObj [(''success'', JBool False),
                                  (''error'', JStr ''Failed to delete image'')])\<rparr> \<and>
      fs_calls (snd (deleteImage cwd body st)) = fs_calls st \<and>
      files (snd (deleteImage cwd body st)) = files st) \<and>
   (js_get body' ''url'' = Normal (Some (JStr u')) \<and> startsWith u' ''/api/uploads/'' \<and>
    files st (path_join (uploadsDir cwd) (basename u')) = Some File \<longrightarrow>
      fst (deleteImage cwd body' st) =
       \<lparr>res_status = 200,
       res_body = JsonBody (JObj [(''success'', JBool True),
                                  (''message'', JStr ''Image deleted successfully'')])\<rparr> \<and>
      files (snd (deleteImage cwd body' st)) (path_join (uploadsDir cwd) (basename u')) = None)"
proof (intro conjI impI)
  show "(\<exists>url. js_get body ''url'' = Normal url) \<longleftrightarrow> body \<noteq> None \<and> body \<noteq> Some JNull"
  proof (cases body)
    case None
    then show ?thesis by simp
  next
    case (Some j)
    then show ?thesis by (cases j) simp_all
  qed
next
  assume "js_get body ''url'' = Normal url \<and>
    (\<not> js_truthy url \<or> (\<exists>u. url = Some (JStr u) \<and> \<not> startsWith u ''/api/uploads/''))"
  then show "deleteImage cwd body st =
       (\<lparr>res_status = 200,
       res_body = JsonBody (JObj [(''success'', JBool True),
                                  (''message'', JStr ''Image deleted successfully'')])\<rparr>, st)"
    using deleteImage_skip [of body url cwd st] by (simp add: delete_ok_def)
next
  assume h: "js_get body ''url'' = Normal url \<and> js_truthy url \<and> (\<forall>u. url \<noteq> Some (JStr u))"
  then have d: "deleteImage cwd body st =
     (delete_failed, server_log (ConsoleError ''Error deleting image:''
                                   (TypeError ''url.startsWith is not a function'')) st)"
    using deleteImage_not_string [of body url cwd st] by blast
  show "fst (deleteImage cwd body st) =
       \<lparr>res_status = 500,
       res_body = JsonBody (JObj [(''success'', JBool False),
                                  (''error'', JStr ''Failed to delete image'')])\<rparr>"
    using d by (simp add: delete_failed_def)
  show "fs_calls (snd (deleteImage cwd body st)) = fs_calls st"
    using d by simp
  show "files (snd (deleteImage cwd body st)) = files st"
    using d by simp
next
  assume "body = None \<or> body = Some JNull"
  then obtain e where "js_get body ''url'' = Throw e" by auto
  then have d: "deleteImage cwd body st =
      (delete_failed, server_log (ConsoleError ''Error deleting image:'' e) st)"
    by (rule deleteImage_no_body)
  show "fst (deleteImage cwd body st) =
       \<lparr>res_status = 500,
       res_body = JsonBody (JObj [(''success'', JBool False),
                                  (''error'', JStr ''Failed to delete image'')])\<rparr>"
    using d by (simp add: delete_failed_def)
  show "fs_calls (snd (deleteImage cwd body st)) = fs_calls st"
    using d by simp
  show "files (snd (deleteImage cwd body st)) = files st"
    using d by simp
next
  assume h: "js_get body' ''url'' = Normal (Some (JStr u')) \<and> startsWith u' ''/api/uploads/'' \<and>
    files st (path_join (uploadsDir cwd) (basename u')) = Some File"
  then have ne: "u' \<noteq> []" by (auto simp: startsWith_def)
  from h ne deleteImage_url [of body' u' cwd st]
  show "fst (deleteImage cwd body' st) =
       \<lparr>res_status = 200,
       res_body = JsonBody (JObj [(''success'', JBool True),
                                  (''message'', JStr ''Image deleted successfully'')])\<rparr>"
    by (simp add: Let_def delete_ok_def)
  from h ne deleteImage_url [of body' u' cwd st]
  show "files (snd (deleteImage cwd body' st)) (path_join (uploadsDir cwd) (basename u')) = None"
    by (simp add: Let_def)
qed

theorem deleteImage_ignored_request_witness:
  "deleteImage [''app''] (Some (JObj []))
      \<lparr>files = map_of [([''app'', ''uploads'', ''a.png''], File)], fs_calls = [], logged = []\<rparr> =
     (\<lparr>res_status = 200,
       res_body = JsonBody (JObj [(''success'', JBool True),
                                  (''message'', JStr ''Image deleted successfully'')])\<rparr>,
      \<lparr>files = map_of [([''app'', ''uploads'', ''a.png''], File)], fs_calls = [], logged = []\<rparr>) \<and>
   deleteImage [''app''] (Some (JObj [(''url'', JStr ''/uploads/a.png'')]))
      \<lparr>files = map_of [([''app'', ''uploads'', ''a.png''], File)], fs_calls = [], logged = []\<rparr> =
     (\<lparr>res_status = 200,
       res_body = JsonBody (JObj [(''success'', JBool True),
                                  (''message'', JStr ''Image deleted successfully'')])\<rparr>,
      \<lparr>files = map_of [([''app'', ''uploads'', ''a.png''], File)], fs_calls = [], logged = []\<rparr>) \<and>
   fst (deleteImage [''app''] (Some (JObj [(''url'', JBool True)]))
      \<lparr>files = map_of [([''app'', ''uploads'', ''a.png''], File)], fs_calls = [], logged = []\<rparr>) =
     \<lparr>res_status = 500,
       res_body = JsonBody (JObj [(''success'', JBool False),
                                  (''error'', JStr ''Failed to delete image'')])\<rparr> \<and>
   fs_calls (snd (deleteImage [''app''] (Some (JObj [(''url'', JBool True)]))
      \<lparr>files = map_of [([''app'', ''uploads'', ''a.png''], File)], fs_calls = [], logged = []\<rparr>)) = [] \<and>
   fst (deleteImage [''app''] None
      \<lparr>files = map_of [([''app'', ''uploads'', ''a.png''], File)], fs_calls = [], logged = []\<rparr>) =
     \<lparr>res_status = 500,
       res_body = JsonBody (JObj [(''success'', JBool False),
                                  (''error'', JStr ''Failed to delete image'')])\<rparr> \<and>
   fs_calls (snd (deleteImage [''app''] None
      \<lparr>files = map_of [([''app'', ''uploads'', ''a.png''], File)], fs_calls = [], logged = []\<rparr>)) = [] \<and>
   fst (deleteImage [''app''] (Some (JObj [(''url'', JStr ''/api/uploads/a.png'')]))
      \<lparr>files = map_of [([''app'', ''uploads'', ''a.png''], File)], fs_calls = [], logged = []\<rparr>) =
     \<lparr>res_status = 200,
       res_body = JsonBody (JObj [(''success'', JBool True),
                                  (''message'', JStr ''Image deleted successfully'')])\<rparr> \<and>
   files (snd (deleteImage [''app''] (Some (JObj [(''url'', JStr ''/api/uploads/a.png'')]))
      \<lparr>files = map_of [([''app'', ''uploads'', ''a.png''], File)], fs_calls = [], logged = []\<rparr>))
     [''app'', ''uploads'', ''a.png''] = None"
proof -
  let ?st = "\<lparr>files = map_of [([''app'', ''uploads'', ''a.png''], File)], fs_calls = [], logged = []\<rparr>"
  have p: "path_join (uploadsDir [''app'']) (basename ''/api/uploads/a.png'') = [''app'', ''uploads'', ''a.png'']"
    by (simp add: uploadsDir_eq path_join_def basename_def)
  have s1: "startsWith ''/api/uploads/a.png'' ''/api/uploads/''"
    and s2: "\<not> startsWith ''/uploads/a.png'' ''/api/uploads/''"
    by (simp_all add: startsWith_def)
  have none: "deleteImage [''app''] (Some (JObj [])) ?st =
     (\<lparr>res_status = 200,
       res_body = JsonBody (JObj [(''success'', JBool True),
                                  (''message'', JStr ''Image deleted successfully'')])\<rparr>, ?st)"
    using deleteImage_ignored_request [where body = "Some (JObj [])" and url = None
                                         and cwd = "[''app'']" and st = ?st]
    by simp
  have other: "deleteImage [''app''] (Some (JObj [(''url'', JStr ''/uploads/a.png'')])) ?st =
     (\<lparr>res_status = 200,
       res_body = JsonBody (JObj [(''success'', JBool True),
                                  (''message'', JStr ''Image deleted successfully'')])\<rparr>, ?st)"
    using deleteImage_ignored_request
            [where body = "Some (JObj [(''url'', JStr ''/uploads/a.png'')])"
               and url = "Some (JStr ''/uploads/a.png'')" and cwd = "[''app'']" and st = ?st] s2
    by simp
  have not_string: "fst (deleteImage [''app''] (Some (JObj [(''url'', JBool True)])) ?st) =
       \<lparr>res_status = 500,
       res_body = JsonBody (JObj [(''success'', JBool False),
                                  (''error'', JStr ''Failed to delete image'')])\<rparr> \<and>
     fs_calls (snd (deleteImage [''app''] (Some (JObj [(''url'', JBool True)])) ?st)) = []"
    using deleteImage_ignored_request
            [where body = "Some (JObj [(''url'', JBool True)])"
               and url = "Some (JBool True)" and cwd = "[''app'']" and st = ?st]
    by simp
  have no_body: "fst (deleteImage [''app''] None ?st) =
       \<lparr>res_status = 500,
       res_body = JsonBody (JObj [(''success'', JBool False),
                                  (''error'', JStr ''Failed to delete image'')])\<rparr> \<and>
     fs_calls (snd (deleteImage [''app''] None ?st)) = []"
    using deleteImage_ignored_request [where body = None and cwd = "[''app'']" and st = ?st]
    by simp
  have real: "fst (deleteImage [''app''] (Some (JObj [(''url'', JStr ''/api/uploads/a.png'')])) ?st) =
       \<lparr>res_status = 200,
       res_body = JsonBody (JObj [(''success'', JBool True),
                                  (''message'', JStr ''Image deleted successfully'')])\<rparr> \<and>
      files (snd (deleteImage [''app''] (Some (JObj [(''url'', JStr ''/api/uploads/a.png'')])) ?st))
        [''app'', ''uploads'', ''a.png''] = None"
    using deleteImage_ignored_request
            [where body' = "Some (JObj [(''url'', JStr ''/api/uploads/a.png'')])"
               and u' = "''/api/uploads/a.png''" and cwd = "[''app'']" and st = ?st]
          s1 p
    by simp
  from none other not_string no_body real show ?thesis by blast
qed

text \<open>
  Without the restriction to strings the statement fails: a \<^verbatim>\<open>url\<close> that is the number 42
  does not start with \<^verbatim>\<open>/api/uploads/\<close>, and the request is not answered with success:
  the call of \<^verbatim>\<open>url.startsWith\<close> throws, and the handler answers 500 with
  \<^verbatim>\<open>success: false\<close>.
\<close>

theorem deleteImage_number_url_counterexample:
  "js_get (Some (JObj [(''url'', JNum 42)])) ''url'' = Normal (Some (JNum 42)) \<and>
   deleteImage [''app''] (Some (JObj [(''url'', JNum 42)]))
      \<lparr>files = map_of [([''app''], Dir), ([''app'', ''uploads''], Dir)], fs_calls = [], logged = []\<rparr> =
     (\<lparr>res_status = 500,
       res_body = JsonBody (JObj [(''success'', JBool False), (''error'', JStr ''Failed to delete image'')])\<rparr>,
      \<lparr>files = map_of [([''app''], Dir), ([''app'', ''uploads''], Dir)], fs_calls = [],
       logged = [ConsoleError ''Error deleting image:'' (TypeError ''url.startsWith is not a function'')]\<rparr>)"
  by (simp add: deleteImage_def deleteImage_try_def delete_failed_def server_log_def)

text \<open>
  An image within the size limit is stored and answered with its URL; a file of another
  content type is answered with 400 and a JSON error, and nothing is stored.
\<close>

lemma upload_image_accepted:
  assumes "fieldname f = ''image''" and "startsWith (mimetype f) ''image/''" and "size f \<le> fileSize"
  shows "res_status (fst (post_upload_image cwd now rnd (Some f) st)) = 200"
    and "res_body (fst (post_upload_image cwd now rnd (Some f) st)) =
           JsonBody (JObj [(''success'', JBool True),
             (''data'', JObj [(''url'', JStr (''/api/uploads/'' @ storage_filename now rnd f)),
                              (''filename'', JStr (originalname f)),
                              (''size'', JNum (int (size f))),
                              (''mimetype'', JStr (mimetype f))])])"
    and "files (snd (post_upload_image cwd now rnd (Some f) st))
           (path_join (uploadsDir cwd) (storage_filename now rnd f)) = Some File"
proof -
  have ne: "mimetype f \<noteq> []" using assms(2) by (auto simp: startsWith_def)
  show "res_status (fst (post_upload_image cwd now rnd (Some f) st)) = 200"
    using assms ne
    by (simp add: post_upload_image_def uploadMiddleware_def fileFilter_def uploadImage_def Let_def
          file_part.defs server_log_def)
  show "res_body (fst (post_upload_image cwd now rnd (Some f) st)) =
           JsonBody (JObj [(''success'', JBool True),
             (''data'', JObj [(''url'', JStr (''/api/uploads/'' @ storage_filename now rnd f)),
                              (''filename'', JStr (originalname f)),
                              (''size'', JNum (int (size f))),
                              (''mimetype'', JStr (mimetype f))])])"
    using assms ne
    by (simp add: post_upload_image_def uploadMiddleware_def fileFilter_def uploadImage_def Let_def
          file_part.defs server_log_def)
  show "files (snd (post_upload_image cwd now rnd (Some f) st))
           (path_join (uploadsDir cwd) (storage_filename now rnd f)) = Some File"
    using assms ne
    by (simp add: post_upload_image_def uploadMiddleware_def fileFilter_def uploadImage_def Let_def
          file_part.defs server_log_def)
qed

lemma upload_non_image_rejected:
  assumes "fieldname f = ''image''" and "\<not> startsWith (mimetype f) ''image/''"
  shows "fst (post_upload_image cwd now rnd (Some f) st) =
           \<lparr> res_status = 400,
             res_body = JsonBody (JObj [(''success'', JBool False),
                (''error'', JStr ''No valid image file provided. Please upload a valid image file (PNG, JPG, GIF, etc.)'')]) \<rparr>"
    and "files (snd (post_upload_image cwd now rnd (Some f) st)) = files st"
  using assms
  by (simp_all add: post_upload_image_def uploadMiddleware_def fileFilter_def uploadImage_def Let_def
        server_log_def)

lemma upload_oversized_rejected:
  assumes "fieldname f = ''image''" and "startsWith (mimetype f) ''image/''" and "size f > fileSize"
  shows "fst (post_upload_image cwd now rnd (Some f) st) =
           \<lparr> res_status = 500, res_body = ErrorPage (MulterError ''LIMIT_FILE_SIZE'') \<rparr>"
    and "files (snd (post_upload_image cwd now rnd (Some f) st))
           (path_join (uploadsDir cwd) (storage_filename now rnd f)) = None"
proof -
  have ne: "mimetype f \<noteq> []" using assms(2) by (auto simp: startsWith_def)
  show "fst (post_upload_image cwd now rnd (Some f) st) =
           \<lparr> res_status = 500, res_body = ErrorPage (MulterError ''LIMIT_FILE_SIZE'') \<rparr>"
    using assms ne
    by (simp add: post_upload_image_def uploadMiddleware_def fileFilter_def default_error_handler_def Let_def)
  show "files (snd (post_upload_image cwd now rnd (Some f) st))
           (path_join (uploadsDir cwd) (storage_filename now rnd f)) = None"
    using assms ne
    by (simp add: post_upload_image_def uploadMiddleware_def fileFilter_def default_error_handler_def Let_def)
qed

text \<open>
  C6. An image of 5 MB and one byte under the field \<^verbatim>\<open>image\<close>: the middleware passes
  \<^verbatim>\<open>LIMIT_FILE_SIZE\<close> to \<^verbatim>\<open>next\<close>, \<open>uploadImage\<close> is not run, and the answer is the 500
  error page of Express, not a JSON body with \<^verbatim>\<open>success: false\<close> and a 4xx status.
\<close>

theorem upload_oversized_image:
  "fst (post_upload_image cwd now rnd
          (Some \<lparr>fieldname = ''image'', originalname = ''cat.png'', mimetype = ''image/png'',
                 size = 5 * 1024 * 1024 + 1\<rparr>) st) =
     \<lparr> res_status = 500, res_body = ErrorPage (MulterError ''LIMIT_FILE_SIZE'') \<rparr>"
  by (simp add: post_upload_image_def uploadMiddleware_def fileFilter_def default_error_handler_def
        Let_def startsWith_def fileSize_def)

end
